theory Spec2Isabelle
  imports Complex_Main "HOL-Library.Option_ord" "HOL-Library.Product_Lexorder"
begin

section \<open>The donation server (src/server.js) as functions on a document store\<close>

text \<open>
  The Express handlers of \<^verbatim>\<open>server.js\<close> that write to the store (every \<^verbatim>\<open>POST\<close> and
  \<^verbatim>\<open>PUT\<close> route) and the read handlers for login, listing, verification detail and matching
  become functions from the request and the store to a response and, for the writers, the
  new store. Conventions of the embedding:
  \<^item> a Mongoose collection is the list of its documents in insertion order; there is no
    delete anywhere in the source, so collections only grow;
  \<^item> an \<^verbatim>\<open>_id\<close> is a natural number drawn from one counter of the store (\<open>nextId\<close>),
    standing for an ObjectId; a request carries an id as text (in the route, or as a text
    field of the body), which Mongoose casts when it builds the query (\<open>castObjectId\<close>): a
    text that is no well-formed ObjectId makes the query throw, and the handler's \<^verbatim>\<open>catch\<close>
    answers 500;
  \<^item> \<^verbatim>\<open>Date.now()\<close> and \<^verbatim>\<open>new Date()\<close> read one clock value per request, the argument
    \<open>now\<close> (milliseconds since the epoch);
  \<^item> a field that may be missing is an \<open>option\<close>; text fields of a request body are optional
    strings, the fields that a handler coerces (\<^verbatim>\<open>Number(age)\<close>, \<^verbatim>\<open>Boolean(hasDonatedBefore)\<close>,
    \<^verbatim>\<open>new Date(lastDonationDate)\<close>) are JSON scalars (\<open>jsval\<close>);
  \<^item> the store operations are total; the \<^verbatim>\<open>catch\<close> branch of a handler (status 500) is
    \<open>InternalError\<close> and is reached only where the source shows the failure (a query by an
    id that is no ObjectId, a required field of the user schema left empty, a \<^verbatim>\<open>switch\<close>
    without a matching case).
\<close>

subsection \<open>JavaScript scalars\<close>

text \<open>A finite double is a rational; the infinities are left out.\<close>

datatype jsnum = NaN | Num rat

datatype jsval = JUndefined | JNull | JBool bool | JNum jsnum | JStr string

text \<open>
  The library functions the handlers call but the repository does not define.
  \<open>castObjectId\<close> is the cast Mongoose applies to the id of \<^verbatim>\<open>findById\<close>,
  \<^verbatim>\<open>findByIdAndUpdate\<close> and \<^verbatim>\<open>_id: { $ne: id }\<close>: the ObjectId a text denotes, or \<open>None\<close>
  where the cast throws its CastError.
\<close>

record lib =
  Number_str :: "string \<Rightarrow> jsnum"
  Date_parse :: "string \<Rightarrow> int option"
  bcrypt_hash :: "string \<Rightarrow> string"
  bcrypt_compare :: "string \<Rightarrow> string \<Rightarrow> bool"
  castObjectId :: "string \<Rightarrow> nat option"

text \<open>\<^verbatim>\<open>!v\<close> is \<open>\<not> truthy v\<close>; \<^verbatim>\<open>Boolean(v)\<close> is \<open>truthy v\<close>.\<close>

fun truthy :: "jsval \<Rightarrow> bool" where
  "truthy JUndefined = False"
| "truthy JNull = False"
| "truthy (JBool b) = b"
| "truthy (JNum NaN) = False"
| "truthy (JNum (Num r)) = (r \<noteq> 0)"
| "truthy (JStr s) = (s \<noteq> [])"

text \<open>Truthiness of an optional string: \<^verbatim>\<open>undefined\<close> and \<^verbatim>\<open>''\<close> are falsy.\<close>

fun truthy_str :: "string option \<Rightarrow> bool" where
  "truthy_str None = False"
| "truthy_str (Some s) = (s \<noteq> [])"

text \<open>\<^verbatim>\<open>Number(v)\<close>.\<close>

fun toNumber :: "lib \<Rightarrow> jsval \<Rightarrow> jsnum" where
  "toNumber L JUndefined = NaN"
| "toNumber L JNull = Num 0"
| "toNumber L (JBool b) = Num (if b then 1 else 0)"
| "toNumber L (JNum n) = n"
| "toNumber L (JStr s) = Number_str L s"

text \<open>
  \<^verbatim>\<open>new Date(v).getTime()\<close>: \<open>None\<close> is the NaN of an invalid date. A number is clipped to
  the range of \<^verbatim>\<open>Date\<close> and truncated towards zero.
\<close>

fun new_Date :: "lib \<Rightarrow> jsval \<Rightarrow> int option" where
  "new_Date L (JStr s) = Date_parse L s"
| "new_Date L (JNum NaN) = None"
| "new_Date L (JNum (Num r)) =
     (if \<bar>r\<bar> \<le> 8640000000000000 then Some (if 0 \<le> r then \<lfloor>r\<rfloor> else \<lceil>r\<rceil>) else None)"
| "new_Date L (JBool b) = Some (if b then 1 else 0)"
| "new_Date L JNull = Some 0"
| "new_Date L JUndefined = None"

text \<open>\<^verbatim>\<open>/^\d{10}$/.test(phone)\<close>; an undefined phone is tested as the text "undefined".\<close>

definition is_digit :: "char \<Rightarrow> bool" where
  "is_digit c = (c \<in> set ''0123456789'')"

definition is_phone :: "string \<Rightarrow> bool" where
  "is_phone p = (length p = 10 \<and> list_all is_digit p)"

fun test_phone :: "string option \<Rightarrow> bool" where
  "test_phone None = False"
| "test_phone (Some p) = is_phone p"

text \<open>\<^verbatim>\<open>notes || ''\<close>.\<close>

fun or_empty :: "string option \<Rightarrow> string" where
  "or_empty None = []"
| "or_empty (Some n) = n"

text \<open>
  \<^verbatim>\<open>Math.floor((Date.now() - lastDate.getTime()) / (1000 * 60 * 60 * 24))\<close>. Both times are
  whole milliseconds within the range of \<^verbatim>\<open>Date\<close>, where the floor of the double quotient
  is the floor of the exact one.
\<close>

definition diffDays :: "int \<Rightarrow> int \<Rightarrow> int" where
  "diffDays now t = (now - t) div (1000 * 60 * 60 * 24)"

subsection \<open>Responses\<close>

datatype 'a response =
    Ok 'a
  | Created 'a
  | BadRequest string
  | Unauthorized string
  | Forbidden string string
  | NotFound string
  | InternalError

fun is_BadRequest :: "'a response \<Rightarrow> bool" where
  "is_BadRequest (BadRequest m) = True"
| "is_BadRequest r = False"

fun is_Created :: "'a response \<Rightarrow> bool" where
  "is_Created (Created x) = True"
| "is_Created r = False"

text \<open>The body of every 201 of a submission: message, id of the new record, status.\<close>

record submitted =
  sub_message :: string
  sub_recordId :: nat
  sub_status :: string

subsection \<open>Schemas\<close>

text \<open>
  Every document has its \<^verbatim>\<open>_id\<close>. The six donor and receiver schemas share the verification
  fields; \<open>envelope\<close> holds them and each schema extends it.
\<close>

record document =
  oid :: nat

record envelope = document +
  isVerified :: bool
  verificationStatus :: string
  adminNotes :: string
  submittedAt :: int
  verifiedAt :: "int option"
  verificationFile :: "string option"

record bloodDonor = envelope +
  bd_name :: "string option"
  bd_phone :: "string option"
  bd_age :: "rat option"
  bd_weight :: "rat option"
  bd_bloodGroup :: "string option"
  bd_hasDonatedBefore :: bool
  bd_lastDonationDate :: "int option"
  bd_latitude :: "rat option"
  bd_longitude :: "rat option"

record bloodReceiver = envelope +
  br_name :: "string option"
  br_phone :: "string option"
  br_location :: "string option"
  br_bloodNeed :: "string option"
  br_latitude :: "rat option"
  br_longitude :: "rat option"
  br_proofFile :: "string option"

record organDonor = envelope +
  od_name :: "string option"
  od_phone :: "string option"
  od_weight :: "rat option"
  od_organType :: "string option"
  od_conditionStatus :: "string option"
  od_hasDonatedBefore :: bool
  od_lastDonationDate :: "int option"
  od_latitude :: "rat option"
  od_longitude :: "rat option"

record organReceiver = envelope +
  or_name :: "string option"
  or_phone :: "string option"
  or_location :: "string option"
  or_organNeed :: "string option"
  or_medicalCondition :: "string option"
  or_latitude :: "rat option"
  or_longitude :: "rat option"
  or_proofFile :: "string option"

record moneyDonor = envelope +
  md_donorName :: "string option"
  md_amount :: "rat option"
  md_paymentMethod :: "string option"
  md_timestamp :: int

record moneyReceiver = envelope +
  mr_name :: "string option"
  mr_age :: "rat option"
  mr_phone :: "string option"
  mr_moneyAmount :: "rat option"
  mr_moneyNeed :: "string option"
  mr_proofFile :: "string option"

text \<open>The entries pushed on \<^verbatim>\<open>user.donations\<close> (a Mixed array): two shapes.\<close>

datatype donation =
    OrganDonation nat "string option" "string option" "string option" "string option" int string
  | MoneyDonation nat "string option" "rat option" "string option" int string

fun donation_status :: "donation \<Rightarrow> string" where
  "donation_status (OrganDonation i n p t c ts st) = st"
| "donation_status (MoneyDonation i n a m ts st) = st"

fun donation_donorId :: "donation \<Rightarrow> nat" where
  "donation_donorId (OrganDonation i n p t c ts st) = i"
| "donation_donorId (MoneyDonation i n a m ts st) = i"

record user = document +
  u_name :: string
  u_phone :: string
  u_password :: string
  u_profilePhoto :: string
  u_createdAt :: int
  donations :: "donation list"

record db =
  users :: "user list"
  bloodDonors :: "bloodDonor list"
  bloodReceivers :: "bloodReceiver list"
  organDonors :: "organDonor list"
  organReceivers :: "organReceiver list"
  moneyDonors :: "moneyDonor list"
  moneyReceivers :: "moneyReceiver list"
  nextId :: nat

definition empty_db :: db where
  "empty_db = \<lparr>users = [], bloodDonors = [], bloodReceivers = [], organDonors = [],
     organReceivers = [], moneyDonors = [], moneyReceivers = [], nextId = 0\<rparr>"

subsection \<open>Store operations\<close>

text \<open>\<^verbatim>\<open>Model.findById(id)\<close>.\<close>

definition findById :: "nat \<Rightarrow> 'a document_scheme list \<Rightarrow> 'a document_scheme option" where
  "findById i xs = find (\<lambda>d. oid d = i) xs"

text \<open>
  \<^verbatim>\<open>Model.findByIdAndUpdate(id, update, { new: true })\<close>: the first document with the id is
  replaced by its update and returned; the second component is the collection afterwards.
\<close>

fun findByIdAndUpdate ::
  "nat \<Rightarrow> ('a document_scheme \<Rightarrow> 'a document_scheme) \<Rightarrow> 'a document_scheme list
     \<Rightarrow> 'a document_scheme option \<times> 'a document_scheme list" where
  "findByIdAndUpdate i f [] = (None, [])"
| "findByIdAndUpdate i f (d # ds) =
     (if oid d = i then (Some (f d), f d # ds)
      else (case findByIdAndUpdate i f ds of (r, ds') \<Rightarrow> (r, d # ds')))"

text \<open>
  \<^verbatim>\<open>Model.findOne(filter).sort({ k: -1 })\<close>: of the documents that pass the filter, one
  with the greatest key; among equal keys the earliest inserted.
\<close>

fun findOne_desc :: "('a \<Rightarrow> 'k::linorder) \<Rightarrow> ('a \<Rightarrow> bool) \<Rightarrow> 'a list \<Rightarrow> 'a option" where
  "findOne_desc key P [] = None"
| "findOne_desc key P (d # ds) =
     (if P d then
        (case findOne_desc key P ds of
           None \<Rightarrow> Some d
         | Some e \<Rightarrow> if key d < key e then Some e else Some d)
      else findOne_desc key P ds)"

subsection \<open>Request bodies\<close>

record registerBody =
  rb_name :: string
  rb_phone :: string
  rb_password :: string
  rb_profilePhoto :: string

record updateUserBody =
  ub_name :: "string option"
  ub_phone :: "string option"
  ub_profilePhoto :: "string option"

record bloodDonorBody =
  bdb_name :: "string option"
  bdb_phone :: "string option"
  bdb_age :: jsval
  bdb_weight :: jsval
  bdb_bloodGroup :: "string option"
  bdb_hasDonatedBefore :: jsval
  bdb_lastDonationDate :: jsval
  bdb_latitude :: "rat option"
  bdb_longitude :: "rat option"
  bdb_userId :: "string option"
  bdb_verificationFile :: "string option"

record bloodReceiverBody =
  brb_name :: "string option"
  brb_phone :: "string option"
  brb_location :: "string option"
  brb_bloodNeed :: "string option"
  brb_latitude :: "rat option"
  brb_longitude :: "rat option"
  brb_verificationFile :: "string option"

record organDonorBody =
  odb_name :: "string option"
  odb_phone :: "string option"
  odb_organType :: "string option"
  odb_conditionStatus :: "string option"
  odb_weight :: jsval
  odb_hasDonatedBefore :: jsval
  odb_lastDonationDate :: jsval
  odb_latitude :: "rat option"
  odb_longitude :: "rat option"
  odb_userId :: "string option"
  odb_verificationFile :: "string option"

record organReceiverBody =
  orb_name :: "string option"
  orb_phone :: "string option"
  orb_location :: "string option"
  orb_organNeed :: "string option"
  orb_medicalCondition :: "string option"
  orb_latitude :: "rat option"
  orb_longitude :: "rat option"
  orb_verificationFile :: "string option"

record moneyDonorBody =
  mdb_donorName :: "string option"
  mdb_amount :: "rat option"
  mdb_paymentMethod :: "string option"
  mdb_userId :: "string option"
  mdb_verificationFile :: "string option"

record moneyReceiverBody =
  mrb_name :: "string option"
  mrb_age :: "rat option"
  mrb_phone :: "string option"
  mrb_moneyAmount :: "rat option"
  mrb_moneyNeed :: "string option"
  mrb_verificationFile :: "string option"

subsection \<open>Users: register, login, update\<close>

text \<open>What a user response carries: the user without the password.\<close>

record userResponse =
  ur_id :: nat
  ur_name :: string
  ur_phone :: string
  ur_profilePhoto :: string
  ur_createdAt :: int
  ur_donations :: "donation list"

definition userResponse_of :: "user \<Rightarrow> userResponse" where
  "userResponse_of u = \<lparr>ur_id = oid u, ur_name = u_name u, ur_phone = u_phone u,
     ur_profilePhoto = u_profilePhoto u, ur_createdAt = u_createdAt u,
     ur_donations = donations u\<rparr>"

text \<open>\<^verbatim>\<open>doc.save()\<close> of a document read from the collection: written back under its id.\<close>

definition save_doc :: "'a document_scheme \<Rightarrow> 'a document_scheme list \<Rightarrow> 'a document_scheme list" where
  "save_doc d xs = snd (findByIdAndUpdate (oid d) (\<lambda>_. d) xs)"

text \<open>
  \<^verbatim>\<open>POST /api/register\<close>. The schema marks name, phone, password and profilePhoto as
  required, so saving an empty one throws and the handler answers 500.
\<close>

definition register :: "lib \<Rightarrow> int \<Rightarrow> registerBody \<Rightarrow> db \<Rightarrow> (string \<times> userResponse) response \<times> db" where
  "register L now b s =
     (case find (\<lambda>u. u_phone u = rb_phone b) (users s) of
        Some existingUser \<Rightarrow> (BadRequest ''User with this phone number already exists'', s)
      | None \<Rightarrow>
          (let hashedPassword = bcrypt_hash L (rb_password b);
               user = \<lparr>oid = nextId s, u_name = rb_name b, u_phone = rb_phone b,
                        u_password = hashedPassword, u_profilePhoto = rb_profilePhoto b,
                        u_createdAt = now, donations = []\<rparr>
           in if rb_name b = [] \<or> rb_phone b = [] \<or> hashedPassword = [] \<or> rb_profilePhoto b = []
              then (InternalError, s)
              else (Created (''User registered successfully'', userResponse_of user),
                    s\<lparr>users := users s @ [user], nextId := Suc (nextId s)\<rparr>)))"

text \<open>\<^verbatim>\<open>POST /api/login\<close>.\<close>

definition login :: "lib \<Rightarrow> string \<Rightarrow> string \<Rightarrow> db \<Rightarrow> (string \<times> userResponse) response" where
  "login L phone password s =
     (case find (\<lambda>u. u_phone u = phone) (users s) of
        None \<Rightarrow> Unauthorized ''Invalid phone number or password''
      | Some user \<Rightarrow>
          (let isPasswordValid = bcrypt_compare L password (u_password user)
           in if \<not> isPasswordValid then Unauthorized ''Invalid phone number or password''
              else Ok (''Login successful'', userResponse_of user)))"

text \<open>
  \<^verbatim>\<open>PUT /api/user/:id\<close>: only the truthy fields of the body are written. Both queries
  carry the id of the route (\<^verbatim>\<open>_id: { $ne: id }\<close> and \<^verbatim>\<open>findByIdAndUpdate(id, ...)\<close>), and
  one of them always runs, so an id that is no ObjectId ends in the \<^verbatim>\<open>catch\<close>.
\<close>

definition updateData_user :: "updateUserBody \<Rightarrow> user \<Rightarrow> user" where
  "updateData_user b u =
     (let u1 = (if truthy_str (ub_name b) then u\<lparr>u_name := or_empty (ub_name b)\<rparr> else u);
          u2 = (if truthy_str (ub_phone b) then u1\<lparr>u_phone := or_empty (ub_phone b)\<rparr> else u1)
      in if truthy_str (ub_profilePhoto b) then u2\<lparr>u_profilePhoto := or_empty (ub_profilePhoto b)\<rparr>
         else u2)"

definition updateUser ::
  "lib \<Rightarrow> string \<Rightarrow> updateUserBody \<Rightarrow> db \<Rightarrow> (string \<times> userResponse) response \<times> db" where
  "updateUser L rid b s =
     (case castObjectId L rid of
        None \<Rightarrow> (InternalError, s)
      | Some i \<Rightarrow>
          if truthy_str (ub_phone b) \<and>
             find (\<lambda>u. Some (u_phone u) = ub_phone b \<and> oid u \<noteq> i) (users s) \<noteq> None
          then (BadRequest ''Phone number already in use'', s)
          else (case findByIdAndUpdate i (updateData_user b) (users s) of
                  (None, us) \<Rightarrow> (NotFound ''User not found'', s)
                | (Some user, us) \<Rightarrow>
                    (Ok (''Profile updated successfully'', userResponse_of user), s\<lparr>users := us\<rparr>)))"

subsection \<open>Submissions\<close>

text \<open>
  The prior-donation block, the same text in the blood donor and the organ donor handler
  (lines 331-345 and 593-607): the message of the 400 it answers, or \<^verbatim>\<open>lastDate\<close>.
\<close>

definition check_lastDonation :: "lib \<Rightarrow> int \<Rightarrow> jsval \<Rightarrow> jsval \<Rightarrow> string + int option" where
  "check_lastDonation L now hasDonatedBefore lastDonationDate =
     (let donatedBefore = truthy hasDonatedBefore in
      if donatedBefore then
        (if \<not> truthy lastDonationDate
         then Inl ''Last donation date is required for previous donors''
         else (case new_Date L lastDonationDate of
                 None \<Rightarrow> Inl ''Invalid last donation date''
               | Some lastDate \<Rightarrow>
                   if diffDays now lastDate < 90
                   then Inl ''At least 90 days must have passed since the last donation''
                   else Inr (Some lastDate)))
      else Inr None)"

text \<open>\<^verbatim>\<open>POST /api/blood-donor\<close>. The body's \<^verbatim>\<open>userId\<close> is read and never used.\<close>

definition post_blood_donor :: "lib \<Rightarrow> int \<Rightarrow> bloodDonorBody \<Rightarrow> db \<Rightarrow> submitted response \<times> db" where
  "post_blood_donor L now b s =
     (if \<not> truthy_str (bdb_name b) \<or> \<not> truthy_str (bdb_phone b) \<or> \<not> truthy (bdb_age b)
         \<or> \<not> truthy (bdb_weight b) \<or> \<not> truthy_str (bdb_bloodGroup b)
      then (BadRequest ''Missing required fields'', s)
      else if \<not> test_phone (bdb_phone b)
      then (BadRequest ''Invalid phone number format'', s)
      else (case toNumber L (bdb_age b) of
          NaN \<Rightarrow> (BadRequest ''Age must be between 18 and 65'', s)
        | Num ageNum \<Rightarrow>
          if ageNum < 18 \<or> ageNum > 65
          then (BadRequest ''Age must be between 18 and 65'', s)
          else (case toNumber L (bdb_weight b) of
              NaN \<Rightarrow> (BadRequest ''Weight must be at least 50 kg'', s)
            | Num weightNum \<Rightarrow>
              if weightNum < 50
              then (BadRequest ''Weight must be at least 50 kg'', s)
              else (case check_lastDonation L now (bdb_hasDonatedBefore b) (bdb_lastDonationDate b) of
                  Inl msg \<Rightarrow> (BadRequest msg, s)
                | Inr lastDate \<Rightarrow>
                  (let donor = \<lparr>oid = nextId s, isVerified = False,
                         verificationStatus = ''pending'', adminNotes = [], submittedAt = now,
                         verifiedAt = None, verificationFile = bdb_verificationFile b,
                         bd_name = bdb_name b, bd_phone = bdb_phone b, bd_age = Some ageNum,
                         bd_weight = Some weightNum, bd_bloodGroup = bdb_bloodGroup b,
                         bd_hasDonatedBefore = truthy (bdb_hasDonatedBefore b),
                         bd_lastDonationDate = lastDate, bd_latitude = bdb_latitude b,
                         bd_longitude = bdb_longitude b\<rparr>
                   in (Created \<lparr>sub_message = ''Blood donor registration submitted for verification'',
                                sub_recordId = oid donor, sub_status = ''pending_verification''\<rparr>,
                       s\<lparr>bloodDonors := bloodDonors s @ [donor], nextId := Suc (nextId s)\<rparr>))))))"

text \<open>\<^verbatim>\<open>POST /api/blood-receiver\<close>: no validation.\<close>

definition post_blood_receiver :: "int \<Rightarrow> bloodReceiverBody \<Rightarrow> db \<Rightarrow> submitted response \<times> db" where
  "post_blood_receiver now b s =
     (let receiver = \<lparr>oid = nextId s, isVerified = False, verificationStatus = ''pending'',
            adminNotes = [], submittedAt = now, verifiedAt = None,
            verificationFile = brb_verificationFile b,
            br_name = brb_name b, br_phone = brb_phone b, br_location = brb_location b,
            br_bloodNeed = brb_bloodNeed b, br_latitude = brb_latitude b,
            br_longitude = brb_longitude b, br_proofFile = None\<rparr>
      in (Created \<lparr>sub_message = ''Blood receiver registration submitted for verification. Donor details will be available once an admin approves your request.'',
                   sub_recordId = oid receiver, sub_status = ''pending_verification''\<rparr>,
          s\<lparr>bloodReceivers := bloodReceivers s @ [receiver], nextId := Suc (nextId s)\<rparr>))"

text \<open>
  The second step of the organ donor and money donor handlers:
  \<^verbatim>\<open>if (userId) { user = await User.findById(userId); if (user) { user.donations.push(entry); await user.save() } }\<close>.
  The result is the user collection afterwards, or \<open>None\<close> when \<^verbatim>\<open>findById\<close> throws because
  the userId is no ObjectId.
\<close>

definition push_donation :: "lib \<Rightarrow> string option \<Rightarrow> donation \<Rightarrow> user list \<Rightarrow> user list option" where
  "push_donation L userId entry us =
     (if truthy_str userId then
        (case castObjectId L (or_empty userId) of
           None \<Rightarrow> None
         | Some i \<Rightarrow>
             (case findById i us of
                None \<Rightarrow> Some us
              | Some user \<Rightarrow> Some (save_doc (user\<lparr>donations := donations user @ [entry]\<rparr>) us)))
      else Some us)"

text \<open>
  \<^verbatim>\<open>POST /api/organ-donor\<close>. The donor is saved before the second step; when that step
  throws, the \<^verbatim>\<open>catch\<close> answers 500 and the saved donor stays.
\<close>

definition post_organ_donor :: "lib \<Rightarrow> int \<Rightarrow> organDonorBody \<Rightarrow> db \<Rightarrow> submitted response \<times> db" where
  "post_organ_donor L now b s =
     (if \<not> truthy_str (odb_name b) \<or> \<not> truthy_str (odb_phone b) \<or> \<not> truthy_str (odb_organType b)
         \<or> \<not> truthy_str (odb_conditionStatus b) \<or> \<not> truthy (odb_weight b)
      then (BadRequest ''Missing required fields'', s)
      else if \<not> test_phone (odb_phone b)
      then (BadRequest ''Invalid phone number format'', s)
      else (case toNumber L (odb_weight b) of
          NaN \<Rightarrow> (BadRequest ''Weight must be at least 50 kg'', s)
        | Num weightNum \<Rightarrow>
          if weightNum < 50
          then (BadRequest ''Weight must be at least 50 kg'', s)
          else (case check_lastDonation L now (odb_hasDonatedBefore b) (odb_lastDonationDate b) of
              Inl msg \<Rightarrow> (BadRequest msg, s)
            | Inr lastDate \<Rightarrow>
              (let donor = \<lparr>oid = nextId s, isVerified = False,
                     verificationStatus = ''pending'', adminNotes = [], submittedAt = now,
                     verifiedAt = None, verificationFile = odb_verificationFile b,
                     od_name = odb_name b, od_phone = odb_phone b, od_weight = Some weightNum,
                     od_organType = odb_organType b, od_conditionStatus = odb_conditionStatus b,
                     od_hasDonatedBefore = truthy (odb_hasDonatedBefore b),
                     od_lastDonationDate = lastDate, od_latitude = odb_latitude b,
                     od_longitude = odb_longitude b\<rparr>;
                   entry = OrganDonation (oid donor) (od_name donor) (od_phone donor)
                     (od_organType donor) (od_conditionStatus donor) now ''pending_verification'';
                   s1 = s\<lparr>organDonors := organDonors s @ [donor], nextId := Suc (nextId s)\<rparr>
               in (case push_donation L (odb_userId b) entry (users s1) of
                     None \<Rightarrow> (InternalError, s1)
                   | Some us \<Rightarrow>
                       (Created \<lparr>sub_message = ''Organ donor registration submitted for verification'',
                                 sub_recordId = oid donor, sub_status = ''pending_verification''\<rparr>,
                        s1\<lparr>users := us\<rparr>))))))"

text \<open>\<^verbatim>\<open>POST /api/organ-receiver\<close>: no validation.\<close>

definition post_organ_receiver :: "int \<Rightarrow> organReceiverBody \<Rightarrow> db \<Rightarrow> submitted response \<times> db" where
  "post_organ_receiver now b s =
     (let receiver = \<lparr>oid = nextId s, isVerified = False, verificationStatus = ''pending'',
            adminNotes = [], submittedAt = now, verifiedAt = None,
            verificationFile = orb_verificationFile b,
            or_name = orb_name b, or_phone = orb_phone b, or_location = orb_location b,
            or_organNeed = orb_organNeed b, or_medicalCondition = orb_medicalCondition b,
            or_latitude = orb_latitude b, or_longitude = orb_longitude b, or_proofFile = None\<rparr>
      in (Created \<lparr>sub_message = ''Organ receiver registration submitted for verification. Donor details will be available once an admin approves your request.'',
                   sub_recordId = oid receiver, sub_status = ''pending_verification''\<rparr>,
          s\<lparr>organReceivers := organReceivers s @ [receiver], nextId := Suc (nextId s)\<rparr>))"

text \<open>\<^verbatim>\<open>POST /api/money-donor\<close>: no validation; the same second step as the organ donor.\<close>

definition post_money_donor :: "lib \<Rightarrow> int \<Rightarrow> moneyDonorBody \<Rightarrow> db \<Rightarrow> submitted response \<times> db" where
  "post_money_donor L now b s =
     (let donor = \<lparr>oid = nextId s, isVerified = False, verificationStatus = ''pending'',
            adminNotes = [], submittedAt = now, verifiedAt = None,
            verificationFile = mdb_verificationFile b,
            md_donorName = mdb_donorName b, md_amount = mdb_amount b,
            md_paymentMethod = mdb_paymentMethod b, md_timestamp = now\<rparr>;
          entry = MoneyDonation (oid donor) (md_donorName donor) (md_amount donor)
            (md_paymentMethod donor) now ''pending_verification'';
          s1 = s\<lparr>moneyDonors := moneyDonors s @ [donor], nextId := Suc (nextId s)\<rparr>
      in (case push_donation L (mdb_userId b) entry (users s1) of
            None \<Rightarrow> (InternalError, s1)
          | Some us \<Rightarrow>
              (Created \<lparr>sub_message = ''Money donation submitted for verification'',
                        sub_recordId = oid donor, sub_status = ''pending_verification''\<rparr>,
               s1\<lparr>users := us\<rparr>)))"

text \<open>\<^verbatim>\<open>POST /api/money-receiver\<close>: no validation.\<close>

definition post_money_receiver :: "int \<Rightarrow> moneyReceiverBody \<Rightarrow> db \<Rightarrow> submitted response \<times> db" where
  "post_money_receiver now b s =
     (let receiver = \<lparr>oid = nextId s, isVerified = False, verificationStatus = ''pending'',
            adminNotes = [], submittedAt = now, verifiedAt = None,
            verificationFile = mrb_verificationFile b,
            mr_name = mrb_name b, mr_age = mrb_age b, mr_phone = mrb_phone b,
            mr_moneyAmount = mrb_moneyAmount b, mr_moneyNeed = mrb_moneyNeed b,
            mr_proofFile = None\<rparr>
      in (Created \<lparr>sub_message = ''Money receiver registration submitted for verification'',
                   sub_recordId = oid receiver, sub_status = ''pending_verification''\<rparr>,
          s\<lparr>moneyReceivers := moneyReceivers s @ [receiver], nextId := Suc (nextId s)\<rparr>))"

subsection \<open>Listing\<close>

text \<open>\<^verbatim>\<open>GET /api/blood-donors\<close>: \<^verbatim>\<open>BloodDonor.find({ verificationStatus: 'approved' })\<close>.\<close>

definition listBloodDonors :: "db \<Rightarrow> bloodDonor list response" where
  "listBloodDonors s = Ok (filter (\<lambda>d. verificationStatus d = ''approved'') (bloodDonors s))"

text \<open>\<^verbatim>\<open>GET /api/organ-donors\<close>: \<^verbatim>\<open>OrganDonor.find()\<close>.\<close>

definition listOrganDonors :: "db \<Rightarrow> organDonor list response" where
  "listOrganDonors s = Ok (organDonors s)"

subsection \<open>Administrative verification\<close>

datatype anydoc =
    BloodDonorDoc bloodDonor
  | BloodReceiverDoc bloodReceiver
  | OrganDonorDoc organDonor
  | OrganReceiverDoc organReceiver
  | MoneyDonorDoc moneyDonor
  | MoneyReceiverDoc moneyReceiver

definition verification_types :: "string list" where
  "verification_types = [''blood-donor'', ''blood-receiver'', ''organ-donor'', ''organ-receiver'',
     ''money-donor'', ''money-receiver'']"

text \<open>
  \<^verbatim>\<open>GET /api/admin/verification/:type/:id\<close>. The id is cast when \<^verbatim>\<open>findById\<close> builds its
  query, whatever the model: a text that is no ObjectId throws. The \<^verbatim>\<open>switch\<close> has no
  default: past its six cases \<^verbatim>\<open>model\<close> would be undefined and the call on it would throw.
\<close>

definition getVerificationDetail :: "lib \<Rightarrow> string \<Rightarrow> string \<Rightarrow> db \<Rightarrow> anydoc response" where
  "getVerificationDetail L type rid s =
     (if type \<notin> set verification_types then BadRequest ''Invalid verification type''
      else (case castObjectId L rid of
        None \<Rightarrow> InternalError
      | Some i \<Rightarrow>
        if type = ''blood-donor'' then
          (case findById i (bloodDonors s) of
             None \<Rightarrow> NotFound ''Verification not found'' | Some item \<Rightarrow> Ok (BloodDonorDoc item))
        else if type = ''blood-receiver'' then
          (case findById i (bloodReceivers s) of
             None \<Rightarrow> NotFound ''Verification not found'' | Some item \<Rightarrow> Ok (BloodReceiverDoc item))
        else if type = ''organ-donor'' then
          (case findById i (organDonors s) of
             None \<Rightarrow> NotFound ''Verification not found'' | Some item \<Rightarrow> Ok (OrganDonorDoc item))
        else if type = ''organ-receiver'' then
          (case findById i (organReceivers s) of
             None \<Rightarrow> NotFound ''Verification not found'' | Some item \<Rightarrow> Ok (OrganReceiverDoc item))
        else if type = ''money-donor'' then
          (case findById i (moneyDonors s) of
             None \<Rightarrow> NotFound ''Verification not found'' | Some item \<Rightarrow> Ok (MoneyDonorDoc item))
        else if type = ''money-receiver'' then
          (case findById i (moneyReceivers s) of
             None \<Rightarrow> NotFound ''Verification not found'' | Some item \<Rightarrow> Ok (MoneyReceiverDoc item))
        else InternalError))"

text \<open>The \<^verbatim>\<open>updateData\<close> of \<^verbatim>\<open>POST /api/admin/verify\<close>, as the update of a document.\<close>

definition updateData :: "string \<Rightarrow> int \<Rightarrow> string option \<Rightarrow> 'a envelope_scheme \<Rightarrow> 'a envelope_scheme" where
  "updateData status now notes d =
     d\<lparr>verificationStatus := status, verifiedAt := Some now,
       isVerified := (status = ''approved''), adminNotes := or_empty notes\<rparr>"

definition verified_message :: "string \<Rightarrow> string" where
  "verified_message status = ''Verification '' @ status @ '' successfully''"

text \<open>
  \<^verbatim>\<open>POST /api/admin/verify\<close>. The two checks come before the \<^verbatim>\<open>try\<close>; inside it the id is
  cast when \<^verbatim>\<open>findByIdAndUpdate\<close> builds its query, and a text that is no ObjectId throws.
\<close>

definition verify ::
  "lib \<Rightarrow> int \<Rightarrow> string \<Rightarrow> string \<Rightarrow> string \<Rightarrow> string option \<Rightarrow> db
     \<Rightarrow> (string \<times> anydoc) response \<times> db" where
  "verify L now type rid status notes s =
     (if type \<notin> set verification_types then (BadRequest ''Invalid verification type'', s)
      else if status \<notin> set [''approved'', ''rejected''] then (BadRequest ''Invalid status'', s)
      else (case castObjectId L rid of
        None \<Rightarrow> (InternalError, s)
      | Some i \<Rightarrow>
        if type = ''blood-donor'' then
          (case findByIdAndUpdate i (updateData status now notes) (bloodDonors s) of
             (None, ds) \<Rightarrow> (NotFound ''Record not found'', s)
           | (Some updated, ds) \<Rightarrow>
               (Ok (verified_message status, BloodDonorDoc updated), s\<lparr>bloodDonors := ds\<rparr>))
        else if type = ''blood-receiver'' then
          (case findByIdAndUpdate i (updateData status now notes) (bloodReceivers s) of
             (None, ds) \<Rightarrow> (NotFound ''Record not found'', s)
           | (Some updated, ds) \<Rightarrow>
               (Ok (verified_message status, BloodReceiverDoc updated), s\<lparr>bloodReceivers := ds\<rparr>))
        else if type = ''organ-donor'' then
          (case findByIdAndUpdate i (updateData status now notes) (organDonors s) of
             (None, ds) \<Rightarrow> (NotFound ''Record not found'', s)
           | (Some updated, ds) \<Rightarrow>
               (Ok (verified_message status, OrganDonorDoc updated), s\<lparr>organDonors := ds\<rparr>))
        else if type = ''organ-receiver'' then
          (case findByIdAndUpdate i (updateData status now notes) (organReceivers s) of
             (None, ds) \<Rightarrow> (NotFound ''Record not found'', s)
           | (Some updated, ds) \<Rightarrow>
               (Ok (verified_message status, OrganReceiverDoc updated), s\<lparr>organReceivers := ds\<rparr>))
        else if type = ''money-donor'' then
          (case findByIdAndUpdate i (updateData status now notes) (moneyDonors s) of
             (None, ds) \<Rightarrow> (NotFound ''Record not found'', s)
           | (Some updated, ds) \<Rightarrow>
               (Ok (verified_message status, MoneyDonorDoc updated), s\<lparr>moneyDonors := ds\<rparr>))
        else if type = ''money-receiver'' then
          (case findByIdAndUpdate i (updateData status now notes) (moneyReceivers s) of
             (None, ds) \<Rightarrow> (NotFound ''Record not found'', s)
           | (Some updated, ds) \<Rightarrow>
               (Ok (verified_message status, MoneyReceiverDoc updated), s\<lparr>moneyReceivers := ds\<rparr>))
        else (InternalError, s)))"

subsection \<open>Matching donors\<close>

record bloodReceiverSummary =
  brs_name :: "string option"
  brs_phone :: "string option"
  brs_bloodNeed :: "string option"
  brs_location :: "string option"
  brs_latitude :: "rat option"
  brs_longitude :: "rat option"

record organReceiverSummary =
  ors_name :: "string option"
  ors_phone :: "string option"
  ors_organNeed :: "string option"
  ors_location :: "string option"
  ors_latitude :: "rat option"
  ors_longitude :: "rat option"
  ors_medicalCondition :: "string option"

text \<open>
  The part the two matching handlers share word for word: the check of the phone and the
  two \<^verbatim>\<open>findOne\<close> queries on the receiver collection. \<open>Inr\<close> is the approved receiver, \<open>Inl\<close>
  the response that ends the request. A missing \<^verbatim>\<open>verifiedAt\<close> sorts below every date.
\<close>

definition approved_receiver ::
  "('a envelope_scheme \<Rightarrow> string option) \<Rightarrow> string option \<Rightarrow> 'a envelope_scheme list
     \<Rightarrow> 'b response + 'a envelope_scheme" where
  "approved_receiver phone_of phone rs =
     (if \<not> truthy_str phone \<or> \<not> test_phone phone
      then Inl (BadRequest ''Valid phone number is required'')
      else (case findOne_desc (\<lambda>r. (verifiedAt r, submittedAt r))
                   (\<lambda>r. phone_of r = phone \<and> verificationStatus r = ''approved'') rs of
              Some receiver \<Rightarrow> Inr receiver
            | None \<Rightarrow>
                (case findOne_desc submittedAt (\<lambda>r. phone_of r = phone) rs of
                   None \<Rightarrow> Inl (NotFound ''Receiver registration not found. Please register first.'')
                 | Some latest \<Rightarrow>
                     Inl (Forbidden (verificationStatus latest)
                       ''Receiver has not been approved yet. Please wait for admin verification.''))))"

text \<open>\<^verbatim>\<open>GET /api/blood-receiver/matching-donors\<close>.\<close>

definition blood_matching_donors ::
  "string option \<Rightarrow> db \<Rightarrow> (string \<times> bloodReceiverSummary \<times> bloodDonor list) response" where
  "blood_matching_donors phone s =
     (case approved_receiver br_phone phone (bloodReceivers s) of
        Inl resp \<Rightarrow> resp
      | Inr receiver \<Rightarrow>
          (let matchingDonors = filter (\<lambda>d. bd_bloodGroup d = br_bloodNeed receiver
                                          \<and> verificationStatus d = ''approved'') (bloodDonors s)
           in Ok (''Receiver verified. Showing available donors.'',
                  \<lparr>brs_name = br_name receiver, brs_phone = br_phone receiver,
                   brs_bloodNeed = br_bloodNeed receiver, brs_location = br_location receiver,
                   brs_latitude = br_latitude receiver, brs_longitude = br_longitude receiver\<rparr>,
                  matchingDonors)))"

text \<open>\<^verbatim>\<open>GET /api/organ-receiver/matching-donors\<close>.\<close>

definition organ_matching_donors ::
  "string option \<Rightarrow> db \<Rightarrow> (string \<times> organReceiverSummary \<times> organDonor list) response" where
  "organ_matching_donors phone s =
     (case approved_receiver or_phone phone (organReceivers s) of
        Inl resp \<Rightarrow> resp
      | Inr receiver \<Rightarrow>
          (let matchingDonors = filter (\<lambda>d. od_organType d = or_organNeed receiver
                                          \<and> verificationStatus d = ''approved'') (organDonors s)
           in Ok (''Receiver verified. Showing available donors.'',
                  \<lparr>ors_name = or_name receiver, ors_phone = or_phone receiver,
                   ors_organNeed = or_organNeed receiver, ors_location = or_location receiver,
                   ors_latitude = or_latitude receiver, ors_longitude = or_longitude receiver,
                   ors_medicalCondition = or_medicalCondition receiver\<rparr>,
                  matchingDonors)))"

subsection \<open>Sequences of requests\<close>

text \<open>
  The requests that write to the store: every \<^verbatim>\<open>POST\<close> and \<^verbatim>\<open>PUT\<close> route of the source.
  Each carries the clock value it is served at.
\<close>

datatype op =
    Register int registerBody
  | UpdateUser string updateUserBody
  | PostBloodDonor int bloodDonorBody
  | PostBloodReceiver int bloodReceiverBody
  | PostOrganDonor int organDonorBody
  | PostOrganReceiver int organReceiverBody
  | PostMoneyDonor int moneyDonorBody
  | PostMoneyReceiver int moneyReceiverBody
  | Verify int string string string "string option"

fun step :: "lib \<Rightarrow> db \<Rightarrow> op \<Rightarrow> db" where
  "step L s (Register now b) = snd (register L now b s)"
| "step L s (UpdateUser rid b) = snd (updateUser L rid b s)"
| "step L s (PostBloodDonor now b) = snd (post_blood_donor L now b s)"
| "step L s (PostBloodReceiver now b) = snd (post_blood_receiver now b s)"
| "step L s (PostOrganDonor now b) = snd (post_organ_donor L now b s)"
| "step L s (PostOrganReceiver now b) = snd (post_organ_receiver now b s)"
| "step L s (PostMoneyDonor now b) = snd (post_money_donor L now b s)"
| "step L s (PostMoneyReceiver now b) = snd (post_money_receiver now b s)"
| "step L s (Verify now type rid status notes) = snd (verify L now type rid status notes s)"

definition run :: "lib \<Rightarrow> op list \<Rightarrow> db \<Rightarrow> db" where
  "run L ops s = foldl (step L) s ops"

subsection \<open>Observing the verification fields\<close>

definition envelope_of :: "'a envelope_scheme \<Rightarrow> envelope" where
  "envelope_of d = \<lparr>oid = oid d, isVerified = isVerified d,
     verificationStatus = verificationStatus d, adminNotes = adminNotes d,
     submittedAt = submittedAt d, verifiedAt = verifiedAt d,
     verificationFile = verificationFile d\<rparr>"

fun anydoc_envelope :: "anydoc \<Rightarrow> envelope" where
  "anydoc_envelope (BloodDonorDoc d) = envelope_of d"
| "anydoc_envelope (BloodReceiverDoc d) = envelope_of d"
| "anydoc_envelope (OrganDonorDoc d) = envelope_of d"
| "anydoc_envelope (OrganReceiverDoc d) = envelope_of d"
| "anydoc_envelope (MoneyDonorDoc d) = envelope_of d"
| "anydoc_envelope (MoneyReceiverDoc d) = envelope_of d"

text \<open>The verification fields of the records of one kind, and of all six kinds.\<close>

definition envelopes :: "db \<Rightarrow> string \<Rightarrow> envelope list" where
  "envelopes s type =
     (if type = ''blood-donor'' then map envelope_of (bloodDonors s)
      else if type = ''blood-receiver'' then map envelope_of (bloodReceivers s)
      else if type = ''organ-donor'' then map envelope_of (organDonors s)
      else if type = ''organ-receiver'' then map envelope_of (organReceivers s)
      else if type = ''money-donor'' then map envelope_of (moneyDonors s)
      else if type = ''money-receiver'' then map envelope_of (moneyReceivers s)
      else [])"

definition all_envelopes :: "db \<Rightarrow> envelope list" where
  "all_envelopes s = concat (map (envelopes s) verification_types)"

text \<open>The status of the record with \<^verbatim>\<open>_id\<close> \<open>i\<close> in the collection of a kind.\<close>

definition status_of :: "db \<Rightarrow> string \<Rightarrow> nat \<Rightarrow> string option" where
  "status_of s type i = map_option verificationStatus (findById i (envelopes s type))"

text \<open>The verification fields every submission handler gives a new record.\<close>

definition new_envelope :: "nat \<Rightarrow> int \<Rightarrow> string option \<Rightarrow> envelope" where
  "new_envelope i now file = \<lparr>oid = i, isVerified = False, verificationStatus = ''pending'',
     adminNotes = [], submittedAt = now, verifiedAt = None, verificationFile = file\<rparr>"

text \<open>
  The statuses of the record \<open>i\<close> of a kind before the first request of a sequence and
  after each one.
\<close>

definition status_history :: "lib \<Rightarrow> op list \<Rightarrow> db \<Rightarrow> string \<Rightarrow> nat \<Rightarrow> string option list" where
  "status_history L ops s type i =
     map (\<lambda>n. status_of (run L (take n ops) s) type i) [0..<Suc (length ops)]"

subsection \<open>What the specification asks\<close>

text \<open>
  The acceptance conditions of a donor submission, as the specification words them; a field
  is present when it is truthy, as the handlers test it.
\<close>

definition spec_blood_fields_present :: "bloodDonorBody \<Rightarrow> bool" where
  "spec_blood_fields_present b \<longleftrightarrow>
     truthy_str (bdb_name b) \<and> truthy_str (bdb_phone b) \<and> truthy (bdb_age b) \<and>
     truthy (bdb_weight b) \<and> truthy_str (bdb_bloodGroup b)"

definition spec_blood_donor_ok :: "lib \<Rightarrow> bloodDonorBody \<Rightarrow> bool" where
  "spec_blood_donor_ok L b \<longleftrightarrow>
     spec_blood_fields_present b \<and> test_phone (bdb_phone b) \<and>
     toNumber L (bdb_age b) \<in> Num ` {18..65} \<and>
     toNumber L (bdb_weight b) \<in> Num ` {50..}"

definition spec_organ_fields_present :: "organDonorBody \<Rightarrow> bool" where
  "spec_organ_fields_present b \<longleftrightarrow>
     truthy_str (odb_name b) \<and> truthy_str (odb_phone b) \<and> truthy_str (odb_organType b) \<and>
     truthy_str (odb_conditionStatus b) \<and> truthy (odb_weight b)"

definition spec_organ_donor_ok :: "lib \<Rightarrow> organDonorBody \<Rightarrow> bool" where
  "spec_organ_donor_ok L b \<longleftrightarrow>
     spec_organ_fields_present b \<and> test_phone (odb_phone b) \<and>
     toNumber L (odb_weight b) \<in> Num ` {50..}"

text \<open>The prior-donation rule is met: no prior donation, or a valid date at least 90 whole days back.\<close>

definition spec_cooldown_ok :: "lib \<Rightarrow> int \<Rightarrow> jsval \<Rightarrow> jsval \<Rightarrow> bool" where
  "spec_cooldown_ok L now hasDonatedBefore lastDonationDate \<longleftrightarrow>
     \<not> truthy hasDonatedBefore \<or>
     (truthy lastDonationDate \<and> (\<exists>t. new_Date L lastDonationDate = Some t \<and> 90 \<le> diffDays now t))"

text \<open>What the prior-donation rule answers to a previous donor, \<open>accepted\<close> being the 201.\<close>

definition spec_cooldown :: "lib \<Rightarrow> int \<Rightarrow> jsval \<Rightarrow> 'a response \<Rightarrow> 'a response" where
  "spec_cooldown L now lastDonationDate accepted =
     (if \<not> truthy lastDonationDate
      then BadRequest ''Last donation date is required for previous donors''
      else case new_Date L lastDonationDate of
             None \<Rightarrow> BadRequest ''Invalid last donation date''
           | Some t \<Rightarrow>
               if diffDays now t < 90
               then BadRequest ''At least 90 days must have passed since the last donation''
               else accepted)"

text \<open>
  The userId of a body is supplied (truthy) and is no ObjectId: \<^verbatim>\<open>User.findById(userId)\<close>
  throws.
\<close>

definition cast_throws :: "lib \<Rightarrow> string option \<Rightarrow> bool" where
  "cast_throws L userId \<longleftrightarrow> truthy_str userId \<and> castObjectId L (or_empty userId) = None"

text \<open>The link the specification asks between the two verification fields.\<close>

definition spec_envelope_ok :: "envelope \<Rightarrow> bool" where
  "spec_envelope_ok e \<longleftrightarrow> isVerified e = (verificationStatus e = ''approved'')"

text \<open>The number of times an existing record's status changes along a history.\<close>

fun spec_transitions :: "string option list \<Rightarrow> nat" where
  "spec_transitions (Some a # Some b # xs) =
     (if a \<noteq> b then 1 else 0) + spec_transitions (Some b # xs)"
| "spec_transitions (x # y # xs) = spec_transitions (y # xs)"
| "spec_transitions xs = 0"

text \<open>
  The receiver records of a phone; the most recently submitted of them; the approved one
  the specification picks: latest \<^verbatim>\<open>verifiedAt\<close> first, then latest \<^verbatim>\<open>submittedAt\<close>.
\<close>

definition spec_latest_submitted ::
  "('a envelope_scheme \<Rightarrow> string option) \<Rightarrow> string \<Rightarrow> 'a envelope_scheme list \<Rightarrow> 'a envelope_scheme \<Rightarrow> bool" where
  "spec_latest_submitted phone_of p rs latest \<longleftrightarrow>
     latest \<in> set rs \<and> phone_of latest = Some p \<and>
     (\<forall>r \<in> set rs. phone_of r = Some p \<longrightarrow> submittedAt r \<le> submittedAt latest)"

definition spec_chosen_approved ::
  "('a envelope_scheme \<Rightarrow> string option) \<Rightarrow> string \<Rightarrow> 'a envelope_scheme list \<Rightarrow> 'a envelope_scheme \<Rightarrow> bool" where
  "spec_chosen_approved phone_of p rs receiver \<longleftrightarrow>
     receiver \<in> set rs \<and> phone_of receiver = Some p \<and> verificationStatus receiver = ''approved'' \<and>
     (\<forall>r \<in> set rs. phone_of r = Some p \<and> verificationStatus r = ''approved'' \<longrightarrow>
        verifiedAt r < verifiedAt receiver \<or>
        (verifiedAt r = verifiedAt receiver \<and> submittedAt r \<le> submittedAt receiver))"

subsection \<open>Examples\<close>

text \<open>
  The cast of the examples: the 24 hexadecimal digits of an ObjectId, read as a number;
  any other text is no ObjectId.
\<close>

definition hex_value :: "char \<Rightarrow> nat option" where
  "hex_value = map_of
     [(CHR ''0'', 0), (CHR ''1'', 1), (CHR ''2'', 2), (CHR ''3'', 3), (CHR ''4'', 4),
      (CHR ''5'', 5), (CHR ''6'', 6), (CHR ''7'', 7), (CHR ''8'', 8), (CHR ''9'', 9),
      (CHR ''a'', 10), (CHR ''b'', 11), (CHR ''c'', 12), (CHR ''d'', 13), (CHR ''e'', 14),
      (CHR ''f'', 15), (CHR ''A'', 10), (CHR ''B'', 11), (CHR ''C'', 12), (CHR ''D'', 13),
      (CHR ''E'', 14), (CHR ''F'', 15)]"

definition hex_ObjectId :: "string \<Rightarrow> nat option" where
  "hex_ObjectId s =
     (if length s = 24
      then foldl (\<lambda>a c. case (a, hex_value c) of
                          (Some n, Some d) \<Rightarrow> Some (16 * n + d)
                        | _ \<Rightarrow> None) (Some 0) s
      else None)"

text \<open>A library for the examples: every text is not a number and not a date.\<close>

definition lib0 :: lib where
  "lib0 = \<lparr>Number_str = (\<lambda>s. NaN), Date_parse = (\<lambda>s. None),
     bcrypt_hash = (\<lambda>p. CHR ''#'' # p), bcrypt_compare = (\<lambda>p h. h = CHR ''#'' # p),
     castObjectId = hex_ObjectId\<rparr>"

definition ex_register :: registerBody where
  "ex_register = \<lparr>rb_name = ''Asha'', rb_phone = ''9876543210'', rb_password = ''pw'',
     rb_profilePhoto = ''a.png''\<rparr>"

definition ex_blood_donor :: bloodDonorBody where
  "ex_blood_donor = \<lparr>bdb_name = Some ''Ravi'', bdb_phone = Some ''9123456780'',
     bdb_age = JNum (Num 18), bdb_weight = JNum (Num 50), bdb_bloodGroup = Some ''O+'',
     bdb_hasDonatedBefore = JBool False, bdb_lastDonationDate = JUndefined,
     bdb_latitude = None, bdb_longitude = None, bdb_userId = Some ''000000000000000000000000'',
     bdb_verificationFile = None\<rparr>"

definition ex_organ_donor :: organDonorBody where
  "ex_organ_donor = \<lparr>odb_name = Some ''Mina'', odb_phone = Some ''9000000001'',
     odb_organType = Some ''kidney'', odb_conditionStatus = Some ''healthy'',
     odb_weight = JNum (Num 60), odb_hasDonatedBefore = JBool False,
     odb_lastDonationDate = JUndefined, odb_latitude = None, odb_longitude = None,
     odb_userId = Some ''000000000000000000000000'', odb_verificationFile = None\<rparr>"

text \<open>A money donation by the registered user.\<close>

definition ex_money_donor :: moneyDonorBody where
  "ex_money_donor = \<lparr>mdb_donorName = Some ''Asha'', mdb_amount = Some 500,
     mdb_paymentMethod = Some ''upi'', mdb_userId = Some ''000000000000000000000000'', mdb_verificationFile = None\<rparr>"

text \<open>A blood receiver in need of group O+.\<close>

definition ex_blood_receiver :: bloodReceiverBody where
  "ex_blood_receiver = \<lparr>brb_name = Some ''Leela'', brb_phone = Some ''9111111111'',
     brb_location = Some ''Pune'', brb_bloodNeed = Some ''O+'', brb_latitude = None,
     brb_longitude = None, brb_verificationFile = None\<rparr>"

text \<open>Example submissions of a previous donor whose last donation was at time \<open>t\<close>.\<close>

definition ex_prior_blood :: "rat \<Rightarrow> bloodDonorBody" where
  "ex_prior_blood t = ex_blood_donor\<lparr>bdb_hasDonatedBefore := JBool True,
     bdb_lastDonationDate := JNum (Num t)\<rparr>"

definition ex_prior_organ :: "rat \<Rightarrow> organDonorBody" where
  "ex_prior_organ t = ex_organ_donor\<lparr>odb_hasDonatedBefore := JBool True,
     odb_lastDonationDate := JNum (Num t)\<rparr>"

text \<open>A store with one registered user, whose id is 0.\<close>

definition ex_db :: db where
  "ex_db = run lib0 [Register 1000 ex_register] empty_db"

text \<open>The example store after one accepted blood donor submission; the record has id 1.\<close>

definition ex_db1 :: db where
  "ex_db1 = run lib0 [PostBloodDonor 2000 ex_blood_donor] ex_db"

text \<open>A registration, two donor submissions, an approval and a rejection.\<close>

definition ex_ops :: "op list" where
  "ex_ops = [Register 1000 ex_register, PostBloodDonor 2000 ex_blood_donor,
     PostOrganDonor 2500 ex_organ_donor, Verify 3000 ''blood-donor'' ''000000000000000000000001'' ''approved'' None,
     Verify 3500 ''organ-donor'' ''000000000000000000000002'' ''rejected'' (Some ''incomplete'')]"

text \<open>A blood donor submission, its approval, and a later rejection of the same record.\<close>

definition ex_flip :: "op list" where
  "ex_flip = [PostBloodDonor 2000 ex_blood_donor, Verify 3000 ''blood-donor'' ''000000000000000000000001'' ''approved'' None,
     Verify 4000 ''blood-donor'' ''000000000000000000000001'' ''rejected'' None]"

text \<open>
  On the store with user 0: a blood receiver (record 1) and three blood donors: record 2 of group O+ and record 3 of
  group A+, both approved, and record 4 of group O+, left pending.
\<close>

definition ex_match_db :: db where
  "ex_match_db = run lib0
     [PostBloodReceiver 1500 ex_blood_receiver, PostBloodDonor 2000 ex_blood_donor,
      PostBloodDonor 2100 (ex_blood_donor\<lparr>bdb_bloodGroup := Some ''A+''\<rparr>),
      PostBloodDonor 2200 ex_blood_donor,
      Verify 3000 ''blood-donor'' ''000000000000000000000002'' ''approved'' None,
      Verify 3100 ''blood-donor'' ''000000000000000000000003'' ''approved'' None] ex_db"

text \<open>The same store after the receiver is approved.\<close>

definition ex_matched_db :: db where
  "ex_matched_db = step lib0 ex_match_db (Verify 4000 ''blood-receiver'' ''000000000000000000000001'' ''approved'' None)"

section \<open>Properties of the handlers\<close>

subsection \<open>Facts about the examples\<close>

lemma ex_hex:
  "hex_ObjectId ''000000000000000000000000'' = Some 0"
  "hex_ObjectId ''000000000000000000000001'' = Some 1"
  "hex_ObjectId ''000000000000000000000002'' = Some 2"
  "hex_ObjectId ''000000000000000000000003'' = Some 3"
  "hex_ObjectId ''000000000000000000000007'' = Some 7"
  "hex_ObjectId ''000000000000000000000009'' = Some 9"
  "hex_ObjectId ''abc'' = None"
  by (simp_all add: hex_ObjectId_def hex_value_def)

lemma lib0_cast: "castObjectId lib0 = hex_ObjectId"
  by (simp add: lib0_def)

lemmas ex_simps = ex_blood_donor_def ex_organ_donor_def ex_prior_blood_def ex_prior_organ_def
  lib0_def spec_blood_donor_ok_def spec_organ_donor_ok_def spec_blood_fields_present_def
  spec_organ_fields_present_def spec_cooldown_ok_def spec_cooldown_def is_phone_def is_digit_def
  diffDays_def cast_throws_def ex_hex

lemma ex_db_users:
  "users ex_db = [\<lparr>oid = 0, u_name = ''Asha'', u_phone = ''9876543210'', u_password = ''#pw'',
     u_profilePhoto = ''a.png'', u_createdAt = 1000, donations = []\<rparr>]"
  by (simp add: ex_db_def run_def register_def empty_db_def ex_register_def lib0_def Let_def)

subsection \<open>Lookups in a collection\<close>

lemma findById_Some: "findById i xs = Some d \<Longrightarrow> oid d = i \<and> d \<in> set xs"
  by (auto simp: findById_def find_Some_iff)

lemma findById_append:
  "findById i (xs @ ys) = (case findById i xs of Some d \<Rightarrow> Some d | None \<Rightarrow> findById i ys)"
  by (induction xs) (auto simp: findById_def)

lemma findById_single: "findById i [d] = (if oid d = i then Some d else None)"
  by (simp add: findById_def)

lemma findById_None_iff: "findById i xs = None \<longleftrightarrow> i \<notin> oid ` set xs"
  by (auto simp: findById_def find_None_iff)

lemma findByIdAndUpdate_fst:
  "fst (findByIdAndUpdate i f xs) = map_option f (findById i xs)"
  by (induction xs) (auto simp: findById_def split: prod.splits)

lemma findByIdAndUpdate_length:
  "length (snd (findByIdAndUpdate i f xs)) = length xs"
  by (induction xs) (auto split: prod.splits)

lemma findByIdAndUpdate_None:
  "findById i xs = None \<Longrightarrow> snd (findByIdAndUpdate i f xs) = xs"
  by (induction xs) (auto simp: findById_def split: prod.splits if_splits)

lemma findByIdAndUpdate_case:
  "(case findByIdAndUpdate i f xs of (None, ds) \<Rightarrow> A ds | (Some d, ds) \<Rightarrow> B d ds) =
   (case findById i xs of
      None \<Rightarrow> A (snd (findByIdAndUpdate i f xs))
    | Some d \<Rightarrow> B (f d) (snd (findByIdAndUpdate i f xs)))"
  using findByIdAndUpdate_fst [of i f xs]
  by (cases "findByIdAndUpdate i f xs") (auto split: option.splits)

lemma findById_update:
  "(\<And>d. oid d = i \<Longrightarrow> oid (f d) = i) \<Longrightarrow>
   findById j (snd (findByIdAndUpdate i f xs)) =
     (if j = i then map_option f (findById i xs) else findById j xs)"
  by (induction xs) (auto simp: findById_def split: prod.splits)

lemma list_all_findByIdAndUpdate:
  "list_all P xs \<Longrightarrow> (\<And>d. P d \<Longrightarrow> P (f d)) \<Longrightarrow> list_all P (snd (findByIdAndUpdate i f xs))"
  by (induction xs) (auto split: prod.splits)

lemma findOne_desc_None: "findOne_desc key P xs = None \<longleftrightarrow> (\<forall>x \<in> set xs. \<not> P x)"
  by (induction xs) (auto split: option.splits)

lemma findOne_desc_Some:
  "findOne_desc key P xs = Some d \<Longrightarrow>
   d \<in> set xs \<and> P d \<and> (\<forall>e \<in> set xs. P e \<longrightarrow> key e \<le> key d)"
proof (induction xs arbitrary: d)
  case Nil
  then show ?case by simp
next
  case (Cons x xs)
  show ?case
  proof (cases "P x")
    case False
    with Cons show ?thesis by auto
  next
    case True
    show ?thesis
    proof (cases "findOne_desc key P xs")
      case None
      with True Cons.prems have "d = x" by simp
      with None True show ?thesis by (auto simp: findOne_desc_None)
    next
      case (Some e)
      from Cons.IH [OF Some] have e: "e \<in> set xs" "P e" "\<forall>y \<in> set xs. P y \<longrightarrow> key y \<le> key e"
        by auto
      show ?thesis
      proof (cases "key x < key e")
        case True
        with Some \<open>P x\<close> Cons.prems have "d = e" by simp
        with e True show ?thesis by auto
      next
        case False
        with Some \<open>P x\<close> Cons.prems have "d = x" by simp
        with e False \<open>P x\<close> show ?thesis by (auto intro: order_trans)
      qed
    qed
  qed
qed

lemma count_list_filter:
  "count_list (filter P xs) d = (if P d then count_list xs d else 0)"
  by (induction xs) auto

lemma find_None_image: "find (\<lambda>u. f u = k) xs = None \<longleftrightarrow> k \<notin> f ` set xs"
  by (auto simp: find_None_iff)

subsection \<open>Matching donors\<close>

lemma is_phone_truthy: "is_phone p \<Longrightarrow> truthy_str (Some p) \<and> test_phone (Some p)"
  by (auto simp: is_phone_def)

lemma approved_receiver_none:
  assumes "is_phone p" and "\<forall>r \<in> set rs. phone_of r \<noteq> Some p"
  shows "approved_receiver phone_of (Some p) rs =
     Inl (NotFound ''Receiver registration not found. Please register first.'')"
proof -
  from assms(2) have "findOne_desc (\<lambda>r. (verifiedAt r, submittedAt r))
      (\<lambda>r. phone_of r = Some p \<and> verificationStatus r = ''approved'') rs = None"
    and "findOne_desc submittedAt (\<lambda>r. phone_of r = Some p) rs = None"
    by (simp_all add: findOne_desc_None)
  with is_phone_truthy [OF assms(1)] show ?thesis
    by (simp add: approved_receiver_def)
qed

lemma approved_receiver_unapproved:
  assumes "is_phone p" and "\<exists>r \<in> set rs. phone_of r = Some p"
    and "\<forall>r \<in> set rs. phone_of r = Some p \<longrightarrow> verificationStatus r \<noteq> ''approved''"
  shows "spec_latest_submitted phone_of p rs
           (the (findOne_desc submittedAt (\<lambda>r. phone_of r = Some p) rs))"
    and "approved_receiver phone_of (Some p) rs =
       Inl (Forbidden
         (verificationStatus (the (findOne_desc submittedAt (\<lambda>r. phone_of r = Some p) rs)))
         ''Receiver has not been approved yet. Please wait for admin verification.'')"
proof -
  from assms(3) have a: "findOne_desc (\<lambda>r. (verifiedAt r, submittedAt r))
      (\<lambda>r. phone_of r = Some p \<and> verificationStatus r = ''approved'') rs = None"
    by (auto simp: findOne_desc_None)
  from assms(2) obtain latest where l: "findOne_desc submittedAt (\<lambda>r. phone_of r = Some p) rs = Some latest"
    by (cases "findOne_desc submittedAt (\<lambda>r. phone_of r = Some p) rs")
       (auto simp: findOne_desc_None)
  from findOne_desc_Some [OF l] l
  show "spec_latest_submitted phone_of p rs
           (the (findOne_desc submittedAt (\<lambda>r. phone_of r = Some p) rs))"
    by (simp add: spec_latest_submitted_def)
  from a l is_phone_truthy [OF assms(1)]
  show "approved_receiver phone_of (Some p) rs =
       Inl (Forbidden
         (verificationStatus (the (findOne_desc submittedAt (\<lambda>r. phone_of r = Some p) rs)))
         ''Receiver has not been approved yet. Please wait for admin verification.'')"
    by (simp add: approved_receiver_def)
qed

lemma approved_receiver_approved:
  assumes "is_phone p"
    and "\<exists>r \<in> set rs. phone_of r = Some p \<and> verificationStatus r = ''approved''"
  shows "spec_chosen_approved phone_of p rs
           (the (findOne_desc (\<lambda>r. (verifiedAt r, submittedAt r))
              (\<lambda>r. phone_of r = Some p \<and> verificationStatus r = ''approved'') rs))"
    and "approved_receiver phone_of (Some p) rs =
       Inr (the (findOne_desc (\<lambda>r. (verifiedAt r, submittedAt r))
              (\<lambda>r. phone_of r = Some p \<and> verificationStatus r = ''approved'') rs))"
proof -
  from assms(2) obtain receiver where r: "findOne_desc (\<lambda>r. (verifiedAt r, submittedAt r))
      (\<lambda>r. phone_of r = Some p \<and> verificationStatus r = ''approved'') rs = Some receiver"
    by (cases "findOne_desc (\<lambda>r. (verifiedAt r, submittedAt r))
      (\<lambda>r. phone_of r = Some p \<and> verificationStatus r = ''approved'') rs")
       (auto simp: findOne_desc_None)
  from findOne_desc_Some [OF r] r
  show "spec_chosen_approved phone_of p rs
           (the (findOne_desc (\<lambda>r. (verifiedAt r, submittedAt r))
              (\<lambda>r. phone_of r = Some p \<and> verificationStatus r = ''approved'') rs))"
    by (auto simp: spec_chosen_approved_def less_eq_prod_def)
  from r is_phone_truthy [OF assms(1)]
  show "approved_receiver phone_of (Some p) rs =
       Inr (the (findOne_desc (\<lambda>r. (verifiedAt r, submittedAt r))
              (\<lambda>r. phone_of r = Some p \<and> verificationStatus r = ''approved'') rs))"
    by (simp add: approved_receiver_def)
qed

text \<open>
  C1. For a phone of ten digits, on the blood and on the organ side alike: when no
  receiver record has the phone the answer is NotFound; when records have it and none is
  approved the answer is Forbidden with the status of a most recently submitted one; when
  an approved record has it, the answer is built from the approved record with the latest
  verifiedAt (then the latest submittedAt): its name, phone, need, location and position
  (and medical condition on the organ side), no verification field, and exactly the donors
  of the collection whose blood group (organ type) equals the receiver's need and whose
  verificationStatus is 'approved'.
\<close>

theorem matching_donors:
  assumes "is_phone p"
  shows
  "((\<forall>r \<in> set (bloodReceivers s). br_phone r \<noteq> Some p) \<longrightarrow>
      blood_matching_donors (Some p) s =
        NotFound ''Receiver registration not found. Please register first.'') \<and>
   ((\<exists>r \<in> set (bloodReceivers s). br_phone r = Some p) \<and>
    (\<forall>r \<in> set (bloodReceivers s). br_phone r = Some p \<longrightarrow> verificationStatus r \<noteq> ''approved'') \<longrightarrow>
      (\<exists>latest. spec_latest_submitted br_phone p (bloodReceivers s) latest \<and>
         blood_matching_donors (Some p) s =
           Forbidden (verificationStatus latest)
             ''Receiver has not been approved yet. Please wait for admin verification.'')) \<and>
   ((\<exists>r \<in> set (bloodReceivers s). br_phone r = Some p \<and> verificationStatus r = ''approved'') \<longrightarrow>
      (\<exists>receiver. spec_chosen_approved br_phone p (bloodReceivers s) receiver \<and>
         blood_matching_donors (Some p) s =
           Ok (''Receiver verified. Showing available donors.'',
               \<lparr>brs_name = br_name receiver, brs_phone = br_phone receiver,
                brs_bloodNeed = br_bloodNeed receiver, brs_location = br_location receiver,
                brs_latitude = br_latitude receiver, brs_longitude = br_longitude receiver\<rparr>,
               filter (\<lambda>d. bd_bloodGroup d = br_bloodNeed receiver \<and>
                            verificationStatus d = ''approved'') (bloodDonors s)))) \<and>
   ((\<forall>r \<in> set (organReceivers s). or_phone r \<noteq> Some p) \<longrightarrow>
      organ_matching_donors (Some p) s =
        NotFound ''Receiver registration not found. Please register first.'') \<and>
   ((\<exists>r \<in> set (organReceivers s). or_phone r = Some p) \<and>
    (\<forall>r \<in> set (organReceivers s). or_phone r = Some p \<longrightarrow> verificationStatus r \<noteq> ''approved'') \<longrightarrow>
      (\<exists>latest. spec_latest_submitted or_phone p (organReceivers s) latest \<and>
         organ_matching_donors (Some p) s =
           Forbidden (verificationStatus latest)
             ''Receiver has not been approved yet. Please wait for admin verification.'')) \<and>
   ((\<exists>r \<in> set (organReceivers s). or_phone r = Some p \<and> verificationStatus r = ''approved'') \<longrightarrow>
      (\<exists>receiver. spec_chosen_approved or_phone p (organReceivers s) receiver \<and>
         organ_matching_donors (Some p) s =
           Ok (''Receiver verified. Showing available donors.'',
               \<lparr>ors_name = or_name receiver, ors_phone = or_phone receiver,
                ors_organNeed = or_organNeed receiver, ors_location = or_location receiver,
                ors_latitude = or_latitude receiver, ors_longitude = or_longitude receiver,
                ors_medicalCondition = or_medicalCondition receiver\<rparr>,
               filter (\<lambda>d. od_organType d = or_organNeed receiver \<and>
                            verificationStatus d = ''approved'') (organDonors s))))"
proof (intro conjI impI)
  assume a: "\<forall>r \<in> set (bloodReceivers s). br_phone r \<noteq> Some p"
  show "blood_matching_donors (Some p) s =
        NotFound ''Receiver registration not found. Please register first.''"
    by (simp add: blood_matching_donors_def approved_receiver_none [OF assms a])
next
  assume "(\<exists>r \<in> set (bloodReceivers s). br_phone r = Some p) \<and>
    (\<forall>r \<in> set (bloodReceivers s). br_phone r = Some p \<longrightarrow> verificationStatus r \<noteq> ''approved'')"
  then have a: "\<exists>r \<in> set (bloodReceivers s). br_phone r = Some p"
    and b: "\<forall>r \<in> set (bloodReceivers s). br_phone r = Some p \<longrightarrow> verificationStatus r \<noteq> ''approved''"
    by simp_all
  show "\<exists>latest. spec_latest_submitted br_phone p (bloodReceivers s) latest \<and>
         blood_matching_donors (Some p) s =
           Forbidden (verificationStatus latest)
             ''Receiver has not been approved yet. Please wait for admin verification.''"
    by (rule exI, rule conjI, rule approved_receiver_unapproved(1) [OF assms a b])
       (simp add: blood_matching_donors_def approved_receiver_unapproved(2) [OF assms a b])
next
  assume a: "\<exists>r \<in> set (bloodReceivers s). br_phone r = Some p \<and> verificationStatus r = ''approved''"
  show "\<exists>receiver. spec_chosen_approved br_phone p (bloodReceivers s) receiver \<and>
         blood_matching_donors (Some p) s =
           Ok (''Receiver verified. Showing available donors.'',
               \<lparr>brs_name = br_name receiver, brs_phone = br_phone receiver,
                brs_bloodNeed = br_bloodNeed receiver, brs_location = br_location receiver,
                brs_latitude = br_latitude receiver, brs_longitude = br_longitude receiver\<rparr>,
               filter (\<lambda>d. bd_bloodGroup d = br_bloodNeed receiver \<and>
                            verificationStatus d = ''approved'') (bloodDonors s))"
    by (rule exI, rule conjI, rule approved_receiver_approved(1) [OF assms a])
       (simp add: blood_matching_donors_def Let_def approved_receiver_approved(2) [OF assms a])
next
  assume a: "\<forall>r \<in> set (organReceivers s). or_phone r \<noteq> Some p"
  show "organ_matching_donors (Some p) s =
        NotFound ''Receiver registration not found. Please register first.''"
    by (simp add: organ_matching_donors_def approved_receiver_none [OF assms a])
next
  assume "(\<exists>r \<in> set (organReceivers s). or_phone r = Some p) \<and>
    (\<forall>r \<in> set (organReceivers s). or_phone r = Some p \<longrightarrow> verificationStatus r \<noteq> ''approved'')"
  then have a: "\<exists>r \<in> set (organReceivers s). or_phone r = Some p"
    and b: "\<forall>r \<in> set (organReceivers s). or_phone r = Some p \<longrightarrow> verificationStatus r \<noteq> ''approved''"
    by simp_all
  show "\<exists>latest. spec_latest_submitted or_phone p (organReceivers s) latest \<and>
         organ_matching_donors (Some p) s =
           Forbidden (verificationStatus latest)
             ''Receiver has not been approved yet. Please wait for admin verification.''"
    by (rule exI, rule conjI, rule approved_receiver_unapproved(1) [OF assms a b])
       (simp add: organ_matching_donors_def approved_receiver_unapproved(2) [OF assms a b])
next
  assume a: "\<exists>r \<in> set (organReceivers s). or_phone r = Some p \<and> verificationStatus r = ''approved''"
  show "\<exists>receiver. spec_chosen_approved or_phone p (organReceivers s) receiver \<and>
         organ_matching_donors (Some p) s =
           Ok (''Receiver verified. Showing available donors.'',
               \<lparr>ors_name = or_name receiver, ors_phone = or_phone receiver,
                ors_organNeed = or_organNeed receiver, ors_location = or_location receiver,
                ors_latitude = or_latitude receiver, ors_longitude = or_longitude receiver,
                ors_medicalCondition = or_medicalCondition receiver\<rparr>,
               filter (\<lambda>d. od_organType d = or_organNeed receiver \<and>
                            verificationStatus d = ''approved'') (organDonors s))"
    by (rule exI, rule conjI, rule approved_receiver_approved(1) [OF assms a])
       (simp add: organ_matching_donors_def Let_def approved_receiver_approved(2) [OF assms a])
qed

text \<open>
  An unknown phone is NotFound; the pending receiver is Forbidden with status 'pending';
  once approved, the receiver gets donor 2 alone: donor 3 has another group and donor 4 is
  not approved.
\<close>

theorem matching_donors_witness:
  "blood_matching_donors (Some ''9000000009'') ex_match_db =
     NotFound ''Receiver registration not found. Please register first.'' \<and>
   organ_matching_donors (Some ''9111111111'') ex_match_db =
     NotFound ''Receiver registration not found. Please register first.'' \<and>
   blood_matching_donors (Some ''9111111111'') ex_match_db =
     Forbidden ''pending'' ''Receiver has not been approved yet. Please wait for admin verification.'' \<and>
   (\<exists>m r ds. blood_matching_donors (Some ''9111111111'') ex_matched_db = Ok (m, r, ds) \<and>
      brs_bloodNeed r = Some ''O+'' \<and> map oid ds = [2])"
proof -
  have ph: "is_phone ''9000000009''" "is_phone ''9111111111''"
    by (simp_all add: is_phone_def is_digit_def)
  have r0: "map (\<lambda>r. (br_phone r, verificationStatus r)) (bloodReceivers ex_match_db) =
      [(Some ''9111111111'', ''pending'')]"
    by code_simp
  have r1: "map (\<lambda>r. (br_phone r, verificationStatus r, br_bloodNeed r)) (bloodReceivers ex_matched_db) =
      [(Some ''9111111111'', ''approved'', Some ''O+'')]"
    by code_simp
  have o0: "organReceivers ex_match_db = []"
    by code_simp
  have d1: "map oid (filter (\<lambda>d. bd_bloodGroup d = Some ''O+'' \<and> verificationStatus d = ''approved'')
      (bloodDonors ex_matched_db)) = [2]"
    by code_simp
  from r0 obtain x where x: "bloodReceivers ex_match_db = [x]" "br_phone x = Some ''9111111111''"
    "verificationStatus x = ''pending''"
    by (cases "bloodReceivers ex_match_db") auto
  from r1 obtain y where y: "bloodReceivers ex_matched_db = [y]" "br_phone y = Some ''9111111111''"
    "verificationStatus y = ''approved''" "br_bloodNeed y = Some ''O+''"
    by (cases "bloodReceivers ex_matched_db") auto
  from x o0 matching_donors [OF ph(1), of ex_match_db]
  have 1: "blood_matching_donors (Some ''9000000009'') ex_match_db =
     NotFound ''Receiver registration not found. Please register first.''"
    by simp
  from x o0 matching_donors [OF ph(2), of ex_match_db]
  have 2: "organ_matching_donors (Some ''9111111111'') ex_match_db =
     NotFound ''Receiver registration not found. Please register first.''"
    and 3: "blood_matching_donors (Some ''9111111111'') ex_match_db =
     Forbidden ''pending'' ''Receiver has not been approved yet. Please wait for admin verification.''"
    by (auto simp: spec_latest_submitted_def)
  from y matching_donors [OF ph(2), of ex_matched_db] d1
  have 4: "\<exists>m r ds. blood_matching_donors (Some ''9111111111'') ex_matched_db = Ok (m, r, ds) \<and>
      brs_bloodNeed r = Some ''O+'' \<and> map oid ds = [2]"
    by (auto simp: spec_chosen_approved_def)
  from 1 2 3 4 show ?thesis by blast
qed

subsection \<open>Administrative verification\<close>

lemma oid_envelope_of [simp]: "oid (envelope_of d) = oid d"
  by (simp add: envelope_of_def)

lemma oid_updateData [simp]: "oid (updateData st now notes d) = oid d"
  by (simp add: updateData_def)

lemma envelope_of_updateData:
  "envelope_of (updateData st now notes d) = updateData st now notes (envelope_of d)"
  by (simp add: envelope_of_def updateData_def)

lemma findById_map_envelope:
  "findById i (map envelope_of xs) = map_option envelope_of (findById i xs)"
  by (induction xs) (auto simp: findById_def)

lemma map_envelope_update:
  "map envelope_of (snd (findByIdAndUpdate i (updateData st now notes) xs)) =
   snd (findByIdAndUpdate i (updateData st now notes) (map envelope_of xs))"
  by (induction xs) (auto simp: envelope_of_updateData split: prod.splits)

lemma findById_updateData:
  "findById j (snd (findByIdAndUpdate i (updateData st now notes) xs)) =
     (if j = i then map_option (updateData st now notes) (findById i xs) else findById j xs)"
  by (rule findById_update) simp

lemma updateData_envelope:
  "envelope_of (updateData st now notes d) =
     (envelope_of d)\<lparr>verificationStatus := st, verifiedAt := Some now,
        isVerified := (st = ''approved''), adminNotes := or_empty notes\<rparr>"
  by (simp add: envelope_of_def updateData_def)

lemma in_verification_types:
  "type \<in> set verification_types \<longleftrightarrow>
     type = ''blood-donor'' \<or> type = ''blood-receiver'' \<or> type = ''organ-donor'' \<or>
     type = ''organ-receiver'' \<or> type = ''money-donor'' \<or> type = ''money-receiver''"
  by (auto simp: verification_types_def)

lemma detail_oid:
  "castObjectId L rid = Some i \<Longrightarrow> getVerificationDetail L type rid s = Ok d \<Longrightarrow>
   oid (anydoc_envelope d) = i"
  by (auto simp: getVerificationDetail_def dest!: findById_Some split: if_splits option.splits)

lemma verify_bad:
  "type \<notin> set verification_types \<or> status \<notin> {''approved'', ''rejected''} \<Longrightarrow>
   is_BadRequest (fst (verify L now type rid status nts s)) \<and>
   snd (verify L now type rid status nts s) = s"
  by (auto simp: verify_def)

lemma verify_malformed:
  "type \<in> set verification_types \<Longrightarrow> status \<in> {''approved'', ''rejected''} \<Longrightarrow>
   castObjectId L rid = None \<Longrightarrow> verify L now type rid status nts s = (InternalError, s)"
  by (simp add: verify_def)

lemma verify_absent:
  assumes "type \<in> set verification_types" and "status \<in> {''approved'', ''rejected''}"
    and "castObjectId L rid = Some i" and "i \<notin> oid ` set (envelopes s type)"
  shows "verify L now type rid status nts s = (NotFound ''Record not found'', s)"
proof -
  from assms(4) have "findById i (envelopes s type) = None"
    by (simp add: findById_None_iff)
  with assms(1,2,3) show ?thesis
    unfolding in_verification_types
    by (elim disjE)
       (simp_all add: verify_def envelopes_def verification_types_def findByIdAndUpdate_case
          findById_map_envelope)
qed

lemma verify_present:
  assumes "type \<in> set verification_types" and "status \<in> {''approved'', ''rejected''}"
    and "castObjectId L rid = Some i" and "i \<in> oid ` set (envelopes s type)"
  shows "\<exists>d d'. getVerificationDetail L type rid s = Ok d \<and>
     fst (verify L now type rid status nts s) = Ok (verified_message status, d') \<and>
     getVerificationDetail L type rid (snd (verify L now type rid status nts s)) = Ok d' \<and>
     anydoc_envelope d' = (anydoc_envelope d)\<lparr>verificationStatus := status, verifiedAt := Some now,
        isVerified := (status = ''approved''),
        adminNotes := (case nts of None \<Rightarrow> [] | Some n \<Rightarrow> n)\<rparr>"
proof -
  from assms(4) have "findById i (envelopes s type) \<noteq> None"
    by (simp add: findById_None_iff)
  with assms(1,2,3) show ?thesis
    unfolding in_verification_types
    by (elim disjE)
       (auto simp: verify_def envelopes_def verification_types_def getVerificationDetail_def
          findByIdAndUpdate_case findById_updateData updateData_envelope findById_map_envelope
          split: option.splits)
qed

text \<open>
  C2 as stated fails: an id that is no ObjectId is in no collection, and the answer is not
  NotFound. The cast of the id throws inside the \<^verbatim>\<open>try\<close> and the \<^verbatim>\<open>catch\<close> answers 500; the
  store is unchanged.
\<close>

theorem verify_absent_counterexample:
  "''blood-donor'' \<in> set verification_types \<and> castObjectId lib0 ''abc'' = None \<and>
   verify lib0 3000 ''blood-donor'' ''abc'' ''approved'' None ex_db1 = (InternalError, ex_db1) \<and>
   fst (verify lib0 3000 ''blood-donor'' ''abc'' ''approved'' None ex_db1) \<noteq>
     NotFound ''Record not found''"
proof -
  have c: "castObjectId lib0 ''abc'' = None"
    by (simp add: lib0_cast ex_hex)
  have t: "''blood-donor'' \<in> set verification_types"
    by (simp add: verification_types_def)
  from t c show ?thesis
    by (simp add: verify_malformed)
qed

text \<open>
  C2, amended. \<^verbatim>\<open>verify(kind, id, status, notes)\<close>: a kind outside the six or a status other
  than 'approved' and 'rejected' is answered BadRequest and the store is unchanged; for a
  valid kind and status, an id that is no well-formed ObjectId is answered 500 and the
  store is unchanged; a well-formed id absent from the kind's collection is answered
  NotFound and the store is unchanged; a well-formed id present in the collection is
  answered with the updated record, whose verificationStatus is the status, verifiedAt the
  current time, isVerified the truth of status = 'approved' and adminNotes the notes given,
  or the empty text when none is given, and \<^verbatim>\<open>getVerificationDetail\<close> on the new store
  returns that same record.
\<close>

theorem verify_outcomes:
  "(type \<notin> set verification_types \<or> status \<notin> {''approved'', ''rejected''} \<longrightarrow>
      is_BadRequest (fst (verify L now type rid status nts s)) \<and>
      snd (verify L now type rid status nts s) = s) \<and>
   (type \<in> set verification_types \<and> status \<in> {''approved'', ''rejected''} \<and>
      castObjectId L rid = None \<longrightarrow>
      verify L now type rid status nts s = (InternalError, s)) \<and>
   (type \<in> set verification_types \<and> status \<in> {''approved'', ''rejected''} \<and>
      castObjectId L rid = Some i \<and> i \<notin> oid ` set (envelopes s type) \<longrightarrow>
      verify L now type rid status nts s = (NotFound ''Record not found'', s)) \<and>
   (type \<in> set verification_types \<and> status \<in> {''approved'', ''rejected''} \<and>
      castObjectId L rid = Some i \<and> i \<in> oid ` set (envelopes s type) \<longrightarrow>
      (\<exists>d d'. getVerificationDetail L type rid s = Ok d \<and>
         fst (verify L now type rid status nts s) = Ok (verified_message status, d') \<and>
         getVerificationDetail L type rid (snd (verify L now type rid status nts s)) = Ok d' \<and>
         oid (anydoc_envelope d') = i \<and>
         anydoc_envelope d' =
           (anydoc_envelope d)\<lparr>verificationStatus := status, verifiedAt := Some now,
              isVerified := (status = ''approved''),
              adminNotes := (case nts of None \<Rightarrow> [] | Some n \<Rightarrow> n)\<rparr>))"
proof -
  have 1: "is_BadRequest (fst (verify L now type rid status nts s)) \<and>
      snd (verify L now type rid status nts s) = s"
    if "type \<notin> set verification_types \<or> status \<notin> {''approved'', ''rejected''}"
    using that by (rule verify_bad)
  have 2: "verify L now type rid status nts s = (NotFound ''Record not found'', s)"
    if "type \<in> set verification_types \<and> status \<in> {''approved'', ''rejected''} \<and>
      castObjectId L rid = Some i \<and> i \<notin> oid ` set (envelopes s type)"
    using that by (simp add: verify_absent)
  have 3: "\<exists>d d'. getVerificationDetail L type rid s = Ok d \<and>
         fst (verify L now type rid status nts s) = Ok (verified_message status, d') \<and>
         getVerificationDetail L type rid (snd (verify L now type rid status nts s)) = Ok d' \<and>
         oid (anydoc_envelope d') = i \<and>
         anydoc_envelope d' =
           (anydoc_envelope d)\<lparr>verificationStatus := status, verifiedAt := Some now,
              isVerified := (status = ''approved''),
              adminNotes := (case nts of None \<Rightarrow> [] | Some n \<Rightarrow> n)\<rparr>"
    if a: "type \<in> set verification_types \<and> status \<in> {''approved'', ''rejected''} \<and>
      castObjectId L rid = Some i \<and> i \<in> oid ` set (envelopes s type)"
  proof -
    from a obtain d d' where *: "getVerificationDetail L type rid s = Ok d"
      "fst (verify L now type rid status nts s) = Ok (verified_message status, d')"
      "getVerificationDetail L type rid (snd (verify L now type rid status nts s)) = Ok d'"
      "anydoc_envelope d' = (anydoc_envelope d)\<lparr>verificationStatus := status, verifiedAt := Some now,
        isVerified := (status = ''approved''),
        adminNotes := (case nts of None \<Rightarrow> [] | Some n \<Rightarrow> n)\<rparr>"
      using verify_present [of type status L rid i s now nts] by blast
    from a *(3) have "oid (anydoc_envelope d') = i"
      by (intro detail_oid [of L rid i type _ d']) auto
    with * show ?thesis by blast
  qed
  have 4: "verify L now type rid status nts s = (InternalError, s)"
    if "type \<in> set verification_types \<and> status \<in> {''approved'', ''rejected''} \<and>
      castObjectId L rid = None"
    using that by (simp add: verify_malformed)
  from 1 2 3 4 show ?thesis by blast
qed

text \<open>
  The store after one accepted blood donor submission (record 1): a bad status, a bad
  kind, an id that is no ObjectId, a well-formed id of no record, and an approval with a
  note and a rejection without one, each read back through the detail route.
\<close>

theorem verify_outcomes_witness:
  "fst (verify lib0 3000 ''blood-donor'' ''000000000000000000000001'' ''pending'' None ex_db1) =
     BadRequest ''Invalid status'' \<and>
   fst (verify lib0 3000 ''blood'' ''000000000000000000000001'' ''approved'' None ex_db1) =
     BadRequest ''Invalid verification type'' \<and>
   verify lib0 3000 ''blood-donor'' ''abc'' ''rejected'' None ex_db1 = (InternalError, ex_db1) \<and>
   verify lib0 3000 ''blood-donor'' ''000000000000000000000009'' ''approved'' None ex_db1 =
     (NotFound ''Record not found'', ex_db1) \<and>
   (\<exists>d. getVerificationDetail lib0 ''blood-donor'' ''000000000000000000000001''
          (snd (verify lib0 3000 ''blood-donor'' ''000000000000000000000001'' ''approved''
                 (Some ''papers checked'') ex_db1)) = Ok d \<and>
        oid (anydoc_envelope d) = 1 \<and>
        isVerified (anydoc_envelope d) \<and> verificationStatus (anydoc_envelope d) = ''approved'' \<and>
        verifiedAt (anydoc_envelope d) = Some 3000 \<and>
        adminNotes (anydoc_envelope d) = ''papers checked'') \<and>
   (\<exists>d. getVerificationDetail lib0 ''blood-donor'' ''000000000000000000000001''
          (snd (verify lib0 4000 ''blood-donor'' ''000000000000000000000001'' ''rejected''
                 None ex_db1)) = Ok d \<and>
        \<not> isVerified (anydoc_envelope d) \<and> verificationStatus (anydoc_envelope d) = ''rejected'' \<and>
        verifiedAt (anydoc_envelope d) = Some 4000 \<and> adminNotes (anydoc_envelope d) = [])"
proof -
  have ids: "map oid (envelopes ex_db1 ''blood-donor'') = [1]"
    by code_simp
  then have in1: "1 \<in> oid ` set (envelopes ex_db1 ''blood-donor'')"
    and out9: "9 \<notin> oid ` set (envelopes ex_db1 ''blood-donor'')"
    by (simp_all flip: set_map)
  have c: "castObjectId lib0 ''000000000000000000000001'' = Some 1"
    "castObjectId lib0 ''000000000000000000000009'' = Some 9"
    "castObjectId lib0 ''abc'' = None"
    by (simp_all add: lib0_cast ex_hex)
  have ty: "''blood-donor'' \<in> set verification_types" "''blood'' \<notin> set verification_types"
    by (simp_all add: verification_types_def)
  have st: "''approved'' \<in> {''approved'', ''rejected''}" "''rejected'' \<in> {''approved'', ''rejected''}"
    "''pending'' \<notin> {''approved'', ''rejected''}"
    by simp_all
  from ty st verify_outcomes [of "''blood-donor''" "''pending''" lib0 3000
      "''000000000000000000000001''" None ex_db1 1]
  have 1: "fst (verify lib0 3000 ''blood-donor'' ''000000000000000000000001'' ''pending'' None ex_db1) =
     BadRequest ''Invalid status''"
    by (simp add: verify_def)
  from ty st verify_outcomes [of "''blood''" "''approved''" lib0 3000
      "''000000000000000000000001''" None ex_db1 1]
  have 2: "fst (verify lib0 3000 ''blood'' ''000000000000000000000001'' ''approved'' None ex_db1) =
     BadRequest ''Invalid verification type''"
    by (simp add: verify_def)
  from ty st c out9 verify_outcomes [of "''blood-donor''" "''approved''" lib0 3000
      "''000000000000000000000009''" None ex_db1 9]
  have 3: "verify lib0 3000 ''blood-donor'' ''000000000000000000000009'' ''approved'' None ex_db1 =
     (NotFound ''Record not found'', ex_db1)"
    by blast
  from ty st c in1 verify_outcomes [of "''blood-donor''" "''approved''" lib0 3000
      "''000000000000000000000001''" "Some ''papers checked''" ex_db1 1]
  have 4: "\<exists>d. getVerificationDetail lib0 ''blood-donor'' ''000000000000000000000001''
          (snd (verify lib0 3000 ''blood-donor'' ''000000000000000000000001'' ''approved''
                 (Some ''papers checked'') ex_db1)) = Ok d \<and>
        oid (anydoc_envelope d) = 1 \<and>
        isVerified (anydoc_envelope d) \<and> verificationStatus (anydoc_envelope d) = ''approved'' \<and>
        verifiedAt (anydoc_envelope d) = Some 3000 \<and>
        adminNotes (anydoc_envelope d) = ''papers checked''"
    by auto
  from ty st c in1 verify_outcomes [of "''blood-donor''" "''rejected''" lib0 4000
      "''000000000000000000000001''" None ex_db1 1]
  have 5: "\<exists>d. getVerificationDetail lib0 ''blood-donor'' ''000000000000000000000001''
          (snd (verify lib0 4000 ''blood-donor'' ''000000000000000000000001'' ''rejected''
                 None ex_db1)) = Ok d \<and>
        \<not> isVerified (anydoc_envelope d) \<and> verificationStatus (anydoc_envelope d) = ''rejected'' \<and>
        verifiedAt (anydoc_envelope d) = Some 4000 \<and> adminNotes (anydoc_envelope d) = []"
    by auto
  from ty st c verify_outcomes [of "''blood-donor''" "''rejected''" lib0 3000
      "''abc''" None ex_db1 0]
  have 6: "verify lib0 3000 ''blood-donor'' ''abc'' ''rejected'' None ex_db1 = (InternalError, ex_db1)"
    by blast
  from 1 2 3 4 5 6 show ?thesis by blast
qed

subsection \<open>How a request changes the verification fields of a kind\<close>

lemma envelopes_users [simp]: "envelopes (s\<lparr>users := us\<rparr>) type = envelopes s type"
  by (simp add: envelopes_def)

lemma envelopes_nextId [simp]: "envelopes (s\<lparr>nextId := n\<rparr>) type = envelopes s type"
  by (simp add: envelopes_def)

lemma envelopes_register: "envelopes (snd (register L now b s)) type = envelopes s type"
  by (auto simp: register_def Let_def envelopes_def split: option.splits)

lemma envelopes_updateUser: "envelopes (snd (updateUser L rid b s)) type = envelopes s type"
  by (auto simp: updateUser_def Let_def findByIdAndUpdate_case split: option.splits)

lemma envelopes_post_blood_donor:
  "envelopes (snd (post_blood_donor L now b s)) type =
     (if type = ''blood-donor'' \<and> is_Created (fst (post_blood_donor L now b s))
      then envelopes s type @ [new_envelope (nextId s) now (bdb_verificationFile b)]
      else envelopes s type)"
  unfolding post_blood_donor_def
  by (auto simp: Let_def envelopes_def envelope_of_def new_envelope_def
           split: if_splits jsnum.splits sum.splits)

lemma envelopes_post_organ_donor:
  "envelopes (snd (post_organ_donor L now b s)) type =
     (if type = ''organ-donor'' \<and> \<not> is_BadRequest (fst (post_organ_donor L now b s))
      then envelopes s type @ [new_envelope (nextId s) now (odb_verificationFile b)]
      else envelopes s type)"
  unfolding post_organ_donor_def
  by (auto simp: Let_def envelopes_def envelope_of_def new_envelope_def
           split: if_splits jsnum.splits sum.splits option.splits)

lemma envelopes_post_blood_receiver:
  "envelopes (snd (post_blood_receiver now b s)) type =
     (if type = ''blood-receiver''
      then envelopes s type @ [new_envelope (nextId s) now (brb_verificationFile b)]
      else envelopes s type)"
  by (simp add: post_blood_receiver_def Let_def envelopes_def envelope_of_def new_envelope_def)

lemma envelopes_post_organ_receiver:
  "envelopes (snd (post_organ_receiver now b s)) type =
     (if type = ''organ-receiver''
      then envelopes s type @ [new_envelope (nextId s) now (orb_verificationFile b)]
      else envelopes s type)"
  by (simp add: post_organ_receiver_def Let_def envelopes_def envelope_of_def new_envelope_def)

lemma envelopes_post_money_donor:
  "envelopes (snd (post_money_donor L now b s)) type =
     (if type = ''money-donor''
      then envelopes s type @ [new_envelope (nextId s) now (mdb_verificationFile b)]
      else envelopes s type)"
  by (simp add: post_money_donor_def Let_def envelopes_def envelope_of_def new_envelope_def
        split: option.splits)

lemma envelopes_post_money_receiver:
  "envelopes (snd (post_money_receiver now b s)) type =
     (if type = ''money-receiver''
      then envelopes s type @ [new_envelope (nextId s) now (mrb_verificationFile b)]
      else envelopes s type)"
  by (simp add: post_money_receiver_def Let_def envelopes_def envelope_of_def new_envelope_def)

lemma envelopes_not_type: "type \<notin> set verification_types \<Longrightarrow> envelopes s type = []"
  by (simp add: envelopes_def verification_types_def)

lemma envelopes_upd:
  "envelopes (s\<lparr>bloodDonors := bd\<rparr>) type =
     (if type = ''blood-donor'' then map envelope_of bd else envelopes s type)"
  "envelopes (s\<lparr>bloodReceivers := br\<rparr>) type =
     (if type = ''blood-receiver'' then map envelope_of br else envelopes s type)"
  "envelopes (s\<lparr>organDonors := od\<rparr>) type =
     (if type = ''organ-donor'' then map envelope_of od else envelopes s type)"
  "envelopes (s\<lparr>organReceivers := orr\<rparr>) type =
     (if type = ''organ-receiver'' then map envelope_of orr else envelopes s type)"
  "envelopes (s\<lparr>moneyDonors := md\<rparr>) type =
     (if type = ''money-donor'' then map envelope_of md else envelopes s type)"
  "envelopes (s\<lparr>moneyReceivers := mr\<rparr>) type =
     (if type = ''money-receiver'' then map envelope_of mr else envelopes s type)"
  by (simp_all add: envelopes_def)

lemma envelopes_at:
  "envelopes s ''blood-donor'' = map envelope_of (bloodDonors s)"
  "envelopes s ''blood-receiver'' = map envelope_of (bloodReceivers s)"
  "envelopes s ''organ-donor'' = map envelope_of (organDonors s)"
  "envelopes s ''organ-receiver'' = map envelope_of (organReceivers s)"
  "envelopes s ''money-donor'' = map envelope_of (moneyDonors s)"
  "envelopes s ''money-receiver'' = map envelope_of (moneyReceivers s)"
  by (simp_all add: envelopes_def)

lemma verify_snd:
  assumes "st \<in> {''approved'', ''rejected''}" and "castObjectId L rid = Some i"
  shows
  "snd (verify L now ''blood-donor'' rid st nts s) =
     s\<lparr>bloodDonors := snd (findByIdAndUpdate i (updateData st now nts) (bloodDonors s))\<rparr>"
  "snd (verify L now ''blood-receiver'' rid st nts s) =
     s\<lparr>bloodReceivers := snd (findByIdAndUpdate i (updateData st now nts) (bloodReceivers s))\<rparr>"
  "snd (verify L now ''organ-donor'' rid st nts s) =
     s\<lparr>organDonors := snd (findByIdAndUpdate i (updateData st now nts) (organDonors s))\<rparr>"
  "snd (verify L now ''organ-receiver'' rid st nts s) =
     s\<lparr>organReceivers := snd (findByIdAndUpdate i (updateData st now nts) (organReceivers s))\<rparr>"
  "snd (verify L now ''money-donor'' rid st nts s) =
     s\<lparr>moneyDonors := snd (findByIdAndUpdate i (updateData st now nts) (moneyDonors s))\<rparr>"
  "snd (verify L now ''money-receiver'' rid st nts s) =
     s\<lparr>moneyReceivers := snd (findByIdAndUpdate i (updateData st now nts) (moneyReceivers s))\<rparr>"
  using assms
  by (simp_all add: verify_def verification_types_def findByIdAndUpdate_case
        findByIdAndUpdate_None split: option.splits)

lemma envelopes_verify_malformed:
  "castObjectId L rid = None \<Longrightarrow> envelopes (snd (verify L now ty rid st nts s)) type = envelopes s type"
  by (simp add: verify_def)

lemma envelopes_verify:
  assumes c: "castObjectId L rid = Some i"
  shows "envelopes (snd (verify L now ty rid st nts s)) type =
     (if ty = type \<and> st \<in> {''approved'', ''rejected''}
      then snd (findByIdAndUpdate i (updateData st now nts) (envelopes s type))
      else envelopes s type)"
proof (cases "ty \<in> set verification_types \<and> st \<in> {''approved'', ''rejected''}")
  case False
  then show ?thesis
    using verify_bad [of ty st L now rid nts s] by (auto simp: envelopes_not_type)
next
  case True
  then have st: "st \<in> {''approved'', ''rejected''}" by simp
  from True show ?thesis
    unfolding in_verification_types
    apply (elim conjE disjE)
    apply (simp_all only: verify_snd [OF st c] envelopes_upd envelopes_at map_envelope_update st
          if_True if_False simp_thms split: if_split)
    apply (auto simp: envelopes_at)
    done
qed

lemma envelopes_step:
  "envelopes (step L s op) type = envelopes s type \<or>
   (\<exists>now file. envelopes (step L s op) type = envelopes s type @ [new_envelope (nextId s) now file]) \<or>
   (\<exists>now rid i st nts. op = Verify now type rid st nts \<and> castObjectId L rid = Some i \<and>
      st \<in> {''approved'', ''rejected''} \<and>
      envelopes (step L s op) type =
        snd (findByIdAndUpdate i (updateData st now nts) (envelopes s type)))"
proof (cases op)
  case (Verify now ty rid st nts)
  then show ?thesis
    by (cases "castObjectId L rid") (simp_all add: envelopes_verify envelopes_verify_malformed)
qed (auto simp: envelopes_register envelopes_updateUser envelopes_post_blood_donor
       envelopes_post_blood_receiver envelopes_post_organ_donor envelopes_post_organ_receiver
       envelopes_post_money_donor envelopes_post_money_receiver)

subsection \<open>The two verification fields agree\<close>

lemma spec_envelope_ok_new: "spec_envelope_ok (new_envelope i now file)"
  by (simp add: spec_envelope_ok_def new_envelope_def)

lemma spec_envelope_ok_updateData: "spec_envelope_ok (updateData st now nts e)"
  by (simp add: spec_envelope_ok_def updateData_def)

lemma envelopes_ok_step:
  assumes "list_all spec_envelope_ok (envelopes s type)"
  shows "list_all spec_envelope_ok (envelopes (step L s op) type)"
  using envelopes_step [of L s op type] assms
  by (auto simp: spec_envelope_ok_new spec_envelope_ok_updateData
           intro!: list_all_findByIdAndUpdate)

lemma envelopes_ok_run:
  "list_all spec_envelope_ok (envelopes s type) \<Longrightarrow>
   list_all spec_envelope_ok (envelopes (run L ops s) type)"
  unfolding run_def
  by (induction ops arbitrary: s) (auto intro: envelopes_ok_step)

lemma all_envelopes_ok:
  "list_all P (all_envelopes s) \<longleftrightarrow> (\<forall>type. list_all P (envelopes s type))"
proof
  assume "list_all P (all_envelopes s)"
  then have *: "\<forall>type \<in> set verification_types. list_all P (envelopes s type)"
    by (simp add: all_envelopes_def list_all_iff)
  show "\<forall>type. list_all P (envelopes s type)"
  proof
    fix type show "list_all P (envelopes s type)"
      using * by (cases "type \<in> set verification_types") (auto simp: envelopes_not_type)
  qed
next
  assume "\<forall>type. list_all P (envelopes s type)"
  then show "list_all P (all_envelopes s)"
    by (simp add: all_envelopes_def list_all_iff)
qed

text \<open>
  C3. After every sequence of requests from the empty store (and from any store where it
  holds), every record of the six donor and receiver collections has
  isVerified = (verificationStatus = 'approved'): a new record is pending and not
  verified, and every verify call writes the two fields together.
\<close>

theorem isVerified_invariant:
  "list_all spec_envelope_ok (all_envelopes (run L ops empty_db)) \<and>
   (list_all spec_envelope_ok (all_envelopes s) \<longrightarrow>
      list_all spec_envelope_ok (all_envelopes (run L ops s)))"
proof -
  have "list_all spec_envelope_ok (envelopes empty_db type)" for type
    by (simp add: envelopes_def empty_db_def)
  then show ?thesis
    by (simp add: all_envelopes_ok envelopes_ok_run)
qed

text \<open>
  After the two submissions both records are pending and not verified; after the two
  admin decisions the approved one is verified and the rejected one is not.
\<close>

theorem isVerified_invariant_witness:
  "list_all spec_envelope_ok (all_envelopes (run lib0 ex_ops empty_db)) \<and>
   map (\<lambda>e. (oid e, verificationStatus e, isVerified e)) (all_envelopes (run lib0 ex_ops empty_db)) =
     [(1, ''approved'', True), (2, ''rejected'', False)] \<and>
   map (\<lambda>e. (oid e, verificationStatus e, isVerified e)) (all_envelopes (run lib0 (take 3 ex_ops) empty_db)) =
     [(1, ''pending'', False), (2, ''pending'', False)]"
proof -
  have "map (\<lambda>e. (oid e, verificationStatus e, isVerified e)) (all_envelopes (run lib0 ex_ops empty_db)) =
     [(1, ''approved'', True), (2, ''rejected'', False)]"
    by code_simp
  moreover have "map (\<lambda>e. (oid e, verificationStatus e, isVerified e)) (all_envelopes (run lib0 (take 3 ex_ops) empty_db)) =
     [(1, ''pending'', False), (2, ''pending'', False)]"
    by code_simp
  ultimately show ?thesis
    using isVerified_invariant [of lib0 ex_ops empty_db] by simp
qed

subsection \<open>The life of a verification status\<close>

lemma status_of_envelopes:
  "status_of s type i = map_option verificationStatus (findById i (envelopes s type))"
  by (simp add: status_of_def)

text \<open>The same status is what the admin detail route shows for a text that denotes \<open>i\<close>.\<close>

lemma status_of_detail:
  assumes "castObjectId L rid = Some i"
  shows "status_of s type i =
     (case getVerificationDetail L type rid s of
        Ok d \<Rightarrow> Some (verificationStatus (anydoc_envelope d))
      | _ \<Rightarrow> None)"
proof (cases "type \<in> set verification_types")
  case False
  then show ?thesis
    by (simp add: status_of_def getVerificationDetail_def envelopes_not_type findById_def)
next
  case True
  then show ?thesis
    using assms unfolding in_verification_types
    by (elim disjE)
       (simp_all add: status_of_def getVerificationDetail_def verification_types_def envelopes_at
          findById_map_envelope envelope_of_def split: option.splits)
qed

lemma verificationStatus_updateData [simp]:
  "verificationStatus (updateData st now nts e) = st"
  by (simp add: updateData_def)

lemma verificationStatus_new [simp]: "verificationStatus (new_envelope i now file) = ''pending''"
  by (simp add: new_envelope_def)

lemma status_step_absent:
  "status_of s type i = None \<Longrightarrow>
   status_of (step L s op) type i = None \<or> status_of (step L s op) type i = Some ''pending''"
  using envelopes_step [of L s op type]
  by (auto simp: status_of_envelopes findById_append findById_single findById_updateData
           split: if_splits)

lemma status_step_present:
  "status_of s type i = Some st \<Longrightarrow>
   status_of (step L s op) type i = Some st \<or>
   (\<exists>now rid st' nts. op = Verify now type rid st' nts \<and> castObjectId L rid = Some i \<and>
      st' \<in> {''approved'', ''rejected''} \<and> status_of (step L s op) type i = Some st')"
  using envelopes_step [of L s op type]
  by (auto simp: status_of_envelopes findById_append findById_single findById_updateData
           split: if_splits)

lemma status_verify_again:
  "status_of s type i = Some st \<Longrightarrow> st' \<in> {''approved'', ''rejected''} \<Longrightarrow>
   castObjectId L rid = Some i \<Longrightarrow>
   status_of (step L s (Verify now type rid st' nts)) type i = Some st'"
  by (auto simp: status_of_envelopes envelopes_verify findById_updateData)

lemma status_run_decided:
  "status_of s type i = Some st \<Longrightarrow> st \<noteq> ''pending'' \<Longrightarrow>
   \<exists>st'. status_of (run L ops s) type i = Some st' \<and> st' \<noteq> ''pending''"
proof (induction ops arbitrary: s st)
  case Nil
  then show ?case by (simp add: run_def)
next
  case (Cons op ops)
  from status_step_present [OF Cons.prems(1), of L op] Cons.prems(2)
  obtain st1 where "status_of (step L s op) type i = Some st1" "st1 \<noteq> ''pending''"
    by auto
  from Cons.IH [OF this] show ?case by (simp add: run_def)
qed

lemma status_run_values:
  "status_of s type i \<in> {None, Some ''pending'', Some ''approved'', Some ''rejected''} \<Longrightarrow>
   status_of (run L ops s) type i \<in> {None, Some ''pending'', Some ''approved'', Some ''rejected''}"
proof (induction ops arbitrary: s)
  case Nil
  then show ?case by (simp add: run_def)
next
  case (Cons op ops)
  have "status_of (step L s op) type i \<in> {None, Some ''pending'', Some ''approved'', Some ''rejected''}"
  proof (cases "status_of s type i")
    case None
    from status_step_absent [OF this, of L op] show ?thesis by auto
  next
    case (Some st)
    from status_step_present [OF this, of L op] Some Cons.prems show ?thesis by auto
  qed
  from Cons.IH [OF this] show ?case by (simp add: run_def)
qed

text \<open>
  C4 as stated fails: the verify handler does not look at the current status, so a
  decided record can be decided again. Record 1 goes from pending to approved and then to
  rejected: two transitions after its creation.
\<close>

theorem status_transitions_counterexample:
  "status_history lib0 ex_flip ex_db ''blood-donor'' 1 =
     [None, Some ''pending'', Some ''approved'', Some ''rejected''] \<and>
   \<not> spec_transitions (status_history lib0 ex_flip ex_db ''blood-donor'' 1) \<le> 1"
  by code_simp

text \<open>
  C4, amended. In every store reached from the empty one a status is 'pending', 'approved'
  or 'rejected'. A record that appears starts at 'pending'. The status of an existing
  record changes only by an admin verify on that record (a verify request whose id text
  denotes the record's id), and then to 'approved' or 'rejected'; once it is no longer
  'pending' it never is again, whatever requests follow. An admin verify on an existing
  record sets the status it is given, whatever the status was: the number of transitions
  is not bounded by one.
\<close>

theorem status_lifecycle:
  "status_of (run L ops empty_db) type i \<in>
     {None, Some ''pending'', Some ''approved'', Some ''rejected''} \<and>
   (status_of s type i = None \<longrightarrow>
      status_of (step L s op) type i = None \<or> status_of (step L s op) type i = Some ''pending'') \<and>
   (status_of s type i = Some st \<longrightarrow>
      status_of (step L s op) type i = Some st \<or>
      (\<exists>now rid' st' nts. op = Verify now type rid' st' nts \<and> castObjectId L rid' = Some i \<and>
         st' \<in> {''approved'', ''rejected''} \<and> status_of (step L s op) type i = Some st')) \<and>
   (status_of s type i = Some st \<and> st \<noteq> ''pending'' \<longrightarrow>
      (\<exists>st'. status_of (run L ops s) type i = Some st' \<and> st' \<noteq> ''pending'')) \<and>
   (status_of s type i = Some st \<and> st' \<in> {''approved'', ''rejected''} \<and>
      castObjectId L rid = Some i \<longrightarrow>
      status_of (step L s (Verify now type rid st' nts)) type i = Some st')"
proof -
  have "status_of empty_db type i = None"
    by (simp add: status_of_envelopes envelopes_def empty_db_def findById_def)
  then have "status_of (run L ops empty_db) type i \<in>
     {None, Some ''pending'', Some ''approved'', Some ''rejected''}"
    by (intro status_run_values) simp
  then show ?thesis
    using status_step_absent [of s type i L op] status_step_present [of s type i st L op]
      status_run_decided [of s type i st L ops]
      status_verify_again [of s type i st st' L rid now nts]
    by blast
qed

text \<open>
  Record 1 of the example store is pending; an approval and a later rejection each
  take effect; no blood donor 1 exists before the submission.
\<close>

theorem status_lifecycle_witness:
  "status_of ex_db ''blood-donor'' 1 = None \<and>
   status_of (step lib0 ex_db (PostBloodDonor 2000 ex_blood_donor)) ''blood-donor'' 1 = Some ''pending'' \<and>
   status_of (step lib0 ex_db1
       (Verify 3000 ''blood-donor'' ''000000000000000000000001'' ''approved'' None)) ''blood-donor'' 1 =
     Some ''approved'' \<and>
   status_of (step lib0 (step lib0 ex_db1
          (Verify 3000 ''blood-donor'' ''000000000000000000000001'' ''approved'' None))
       (Verify 4000 ''blood-donor'' ''000000000000000000000001'' ''rejected'' None)) ''blood-donor'' 1 =
     Some ''rejected''"
proof -
  have 0: "status_of ex_db ''blood-donor'' 1 = None"
    by code_simp
  have 1: "status_of ex_db1 ''blood-donor'' 1 = Some ''pending''"
    by code_simp
  have e: "step lib0 ex_db (PostBloodDonor 2000 ex_blood_donor) = ex_db1"
    by (simp add: ex_db1_def run_def)
  have ok: "''approved'' \<in> {''approved'', ''rejected''}" "''rejected'' \<in> {''approved'', ''rejected''}"
    by simp_all
  have c: "castObjectId lib0 ''000000000000000000000001'' = Some 1"
    by (simp add: lib0_cast ex_hex)
  let ?s2 = "step lib0 ex_db1 (Verify 3000 ''blood-donor'' ''000000000000000000000001'' ''approved'' None)"
  from 1 ok c status_lifecycle [where s = ex_db1 and type = "''blood-donor''" and i = 1
      and st = "''pending''" and st' = "''approved''" and L = lib0 and now = 3000 and nts = None
      and rid = "''000000000000000000000001''"]
  have 2: "status_of ?s2 ''blood-donor'' 1 = Some ''approved''"
    by blast
  from 2 ok c status_lifecycle [where s = ?s2 and type = "''blood-donor''" and i = 1
      and st = "''approved''" and st' = "''rejected''" and L = lib0 and now = 4000 and nts = None
      and rid = "''000000000000000000000001''"]
  have 3: "status_of (step lib0 ?s2
        (Verify 4000 ''blood-donor'' ''000000000000000000000001'' ''rejected'' None)) ''blood-donor'' 1 =
      Some ''rejected''"
    by blast
  from 0 1 2 3 e show ?thesis by simp
qed

subsection \<open>Validation of donor submissions\<close>

lemma Num_image_iff [simp]: "Num x \<in> Num ` S \<longleftrightarrow> x \<in> S"
  by auto

lemma NaN_image_iff [simp]: "NaN \<notin> Num ` S"
  by auto

lemma check_lastDonation_Inr:
  "(\<exists>d. check_lastDonation L now h l = Inr d) \<longleftrightarrow> spec_cooldown_ok L now h l"
  by (auto simp: check_lastDonation_def spec_cooldown_ok_def Let_def split: option.splits)



lemma blood_ok_result:
  "spec_blood_donor_ok L b \<Longrightarrow>
   fst (post_blood_donor L now b s) =
     (case check_lastDonation L now (bdb_hasDonatedBefore b) (bdb_lastDonationDate b) of
        Inl msg \<Rightarrow> BadRequest msg
      | Inr lastDate \<Rightarrow> Created \<lparr>sub_message = ''Blood donor registration submitted for verification'',
            sub_recordId = nextId s, sub_status = ''pending_verification''\<rparr>)"
  unfolding post_blood_donor_def spec_blood_donor_ok_def spec_blood_fields_present_def
  by (auto simp: Let_def split: sum.splits)

lemma blood_bad_result:
  "\<not> spec_blood_donor_ok L b \<Longrightarrow>
   fst (post_blood_donor L now b s) =
     (if \<not> spec_blood_fields_present b then BadRequest ''Missing required fields''
      else if \<not> test_phone (bdb_phone b) then BadRequest ''Invalid phone number format''
      else if toNumber L (bdb_age b) \<notin> Num ` {18..65} then BadRequest ''Age must be between 18 and 65''
      else BadRequest ''Weight must be at least 50 kg'')"
  unfolding post_blood_donor_def spec_blood_donor_ok_def spec_blood_fields_present_def
  by (auto simp: Let_def split: sum.splits jsnum.splits)

lemma push_donation_None: "push_donation L x e us = None \<longleftrightarrow> cast_throws L x"
  by (auto simp: push_donation_def cast_throws_def split: option.splits)

lemma fst_case_push:
  "fst (case push_donation L x e us of None \<Rightarrow> (A, s1) | Some us' \<Rightarrow> (B, f us')) =
     (if cast_throws L x then A else B)"
  by (auto simp: push_donation_def cast_throws_def split: option.splits)

lemma organ_ok_result:
  "spec_organ_donor_ok L b \<Longrightarrow>
   fst (post_organ_donor L now b s) =
     (case check_lastDonation L now (odb_hasDonatedBefore b) (odb_lastDonationDate b) of
        Inl msg \<Rightarrow> BadRequest msg
      | Inr lastDate \<Rightarrow>
          if cast_throws L (odb_userId b) then InternalError
          else Created \<lparr>sub_message = ''Organ donor registration submitted for verification'',
                 sub_recordId = nextId s, sub_status = ''pending_verification''\<rparr>)"
  unfolding post_organ_donor_def spec_organ_donor_ok_def spec_organ_fields_present_def
  by (auto simp: Let_def fst_case_push split: sum.splits)


lemma organ_ok_created:
  assumes "spec_organ_donor_ok L b"
    and "spec_cooldown_ok L now (odb_hasDonatedBefore b) (odb_lastDonationDate b)"
  shows "fst (post_organ_donor L now b s) =
     (if cast_throws L (odb_userId b) then InternalError
      else Created \<lparr>sub_message = ''Organ donor registration submitted for verification'',
             sub_recordId = nextId s, sub_status = ''pending_verification''\<rparr>)"
proof -
  from assms(2) obtain d where
    "check_lastDonation L now (odb_hasDonatedBefore b) (odb_lastDonationDate b) = Inr d"
    using check_lastDonation_Inr by blast
  with organ_ok_result [OF assms(1), of now s] show ?thesis by simp
qed


lemma organ_ok_stored:
  assumes "spec_organ_donor_ok L b"
    and "spec_cooldown_ok L now (odb_hasDonatedBefore b) (odb_lastDonationDate b)"
  shows "\<exists>d. organDonors (snd (post_organ_donor L now b s)) = organDonors s @ [d]"
proof -
  from assms(2) obtain d where
    "check_lastDonation L now (odb_hasDonatedBefore b) (odb_lastDonationDate b) = Inr d"
    using check_lastDonation_Inr by blast
  with assms(1) show ?thesis
    unfolding post_organ_donor_def spec_organ_donor_ok_def spec_organ_fields_present_def
    by (auto simp: Let_def split: option.splits)
qed

text \<open>
  C5. A blood donor submission is answered 201 (status 'pending_verification') only if
  name, phone, age, weight and bloodGroup are present, the phone is ten digits, the age is
  in [18, 65] and the weight is at least 50; if one of these fails the answer is a 400
  with the message of the first rule that fails. Ages 17 and 66 are always rejected; 18 and
  65 are accepted when the other fields pass and the prior-donation rule is met.
\<close>

theorem blood_donor_validation:
  "(is_Created (fst (post_blood_donor L now b s)) \<longrightarrow>
      spec_blood_donor_ok L b \<and>
      (\<exists>x. fst (post_blood_donor L now b s) = Created x \<and> sub_status x = ''pending_verification'')) \<and>
   (\<not> spec_blood_donor_ok L b \<longrightarrow>
      fst (post_blood_donor L now b s) =
        (if \<not> spec_blood_fields_present b then BadRequest ''Missing required fields''
         else if \<not> test_phone (bdb_phone b) then BadRequest ''Invalid phone number format''
         else if toNumber L (bdb_age b) \<notin> Num ` {18..65}
         then BadRequest ''Age must be between 18 and 65''
         else BadRequest ''Weight must be at least 50 kg'')) \<and>
   is_BadRequest (fst (post_blood_donor L now (b\<lparr>bdb_age := JNum (Num 17)\<rparr>) s)) \<and>
   is_BadRequest (fst (post_blood_donor L now (b\<lparr>bdb_age := JNum (Num 66)\<rparr>) s)) \<and>
   (spec_blood_donor_ok L b \<and> spec_cooldown_ok L now (bdb_hasDonatedBefore b) (bdb_lastDonationDate b) \<longrightarrow>
      is_Created (fst (post_blood_donor L now b s)) \<and>
      is_Created (fst (post_blood_donor L now (b\<lparr>bdb_age := JNum (Num 18)\<rparr>) s)) \<and>
      is_Created (fst (post_blood_donor L now (b\<lparr>bdb_age := JNum (Num 65)\<rparr>) s)))"
proof (intro conjI impI)
  assume c: "is_Created (fst (post_blood_donor L now b s))"
  show ok: "spec_blood_donor_ok L b"
  proof (rule ccontr)
    assume "\<not> spec_blood_donor_ok L b"
    from blood_bad_result [OF this, of now s] c show False
      by (simp split: if_splits)
  qed
  from blood_ok_result [OF ok, of now s] c
  show "\<exists>x. fst (post_blood_donor L now b s) = Created x \<and> sub_status x = ''pending_verification''"
    by (auto split: sum.splits)
next
  assume "\<not> spec_blood_donor_ok L b"
  then show "fst (post_blood_donor L now b s) =
        (if \<not> spec_blood_fields_present b then BadRequest ''Missing required fields''
         else if \<not> test_phone (bdb_phone b) then BadRequest ''Invalid phone number format''
         else if toNumber L (bdb_age b) \<notin> Num ` {18..65}
         then BadRequest ''Age must be between 18 and 65''
         else BadRequest ''Weight must be at least 50 kg'')"
    by (rule blood_bad_result)
next
  have "\<not> spec_blood_donor_ok L (b\<lparr>bdb_age := JNum (Num 17)\<rparr>)"
    by (auto simp: spec_blood_donor_ok_def)
  from blood_bad_result [OF this, of now s]
  show "is_BadRequest (fst (post_blood_donor L now (b\<lparr>bdb_age := JNum (Num 17)\<rparr>) s))"
    by (simp split: if_splits)
next
  have "\<not> spec_blood_donor_ok L (b\<lparr>bdb_age := JNum (Num 66)\<rparr>)"
    by (auto simp: spec_blood_donor_ok_def)
  from blood_bad_result [OF this, of now s]
  show "is_BadRequest (fst (post_blood_donor L now (b\<lparr>bdb_age := JNum (Num 66)\<rparr>) s))"
    by (simp split: if_splits)
next
  assume a: "spec_blood_donor_ok L b \<and> spec_cooldown_ok L now (bdb_hasDonatedBefore b) (bdb_lastDonationDate b)"
  then obtain d where d: "check_lastDonation L now (bdb_hasDonatedBefore b) (bdb_lastDonationDate b) = Inr d"
    using check_lastDonation_Inr by blast
  from a have ok: "spec_blood_donor_ok L b" by simp
  from blood_ok_result [OF ok, of now s] d
  show "is_Created (fst (post_blood_donor L now b s))" by simp
  have ok18: "spec_blood_donor_ok L (b\<lparr>bdb_age := JNum (Num 18)\<rparr>)"
    using ok by (auto simp: spec_blood_donor_ok_def spec_blood_fields_present_def)
  from blood_ok_result [OF ok18, of now s] d
  show "is_Created (fst (post_blood_donor L now (b\<lparr>bdb_age := JNum (Num 18)\<rparr>) s))" by simp
  have ok65: "spec_blood_donor_ok L (b\<lparr>bdb_age := JNum (Num 65)\<rparr>)"
    using ok by (auto simp: spec_blood_donor_ok_def spec_blood_fields_present_def)
  from blood_ok_result [OF ok65, of now s] d
  show "is_Created (fst (post_blood_donor L now (b\<lparr>bdb_age := JNum (Num 65)\<rparr>) s))" by simp
qed

text \<open>The example submission at ages 18, 65, 17 and 66, with a short phone, and at weight 49.\<close>

theorem blood_donor_validation_witness:
  "is_Created (fst (post_blood_donor lib0 2000 ex_blood_donor ex_db)) \<and>
   is_Created (fst (post_blood_donor lib0 2000 (ex_blood_donor\<lparr>bdb_age := JNum (Num 65)\<rparr>) ex_db)) \<and>
   is_BadRequest (fst (post_blood_donor lib0 2000 (ex_blood_donor\<lparr>bdb_age := JNum (Num 17)\<rparr>) ex_db)) \<and>
   is_BadRequest (fst (post_blood_donor lib0 2000 (ex_blood_donor\<lparr>bdb_age := JNum (Num 66)\<rparr>) ex_db)) \<and>
   fst (post_blood_donor lib0 2000 (ex_blood_donor\<lparr>bdb_phone := Some ''12345''\<rparr>) ex_db) =
     BadRequest ''Invalid phone number format'' \<and>
   fst (post_blood_donor lib0 2000 (ex_blood_donor\<lparr>bdb_weight := JNum (Num 49)\<rparr>) ex_db) =
     BadRequest ''Weight must be at least 50 kg''"
proof -
  have ok: "spec_blood_donor_ok lib0 ex_blood_donor \<and>
      spec_cooldown_ok lib0 2000 (bdb_hasDonatedBefore ex_blood_donor) (bdb_lastDonationDate ex_blood_donor)"
    by (simp add: ex_simps)
  have bad1: "\<not> spec_blood_donor_ok lib0 (ex_blood_donor\<lparr>bdb_phone := Some ''12345''\<rparr>)"
    by (simp add: ex_simps)
  have bad2: "\<not> spec_blood_donor_ok lib0 (ex_blood_donor\<lparr>bdb_weight := JNum (Num 49)\<rparr>)"
    by (simp add: ex_simps)
  from ok blood_donor_validation [of lib0 2000 ex_blood_donor ex_db]
  have "is_Created (fst (post_blood_donor lib0 2000 ex_blood_donor ex_db)) \<and>
     is_Created (fst (post_blood_donor lib0 2000 (ex_blood_donor\<lparr>bdb_age := JNum (Num 65)\<rparr>) ex_db)) \<and>
     is_BadRequest (fst (post_blood_donor lib0 2000 (ex_blood_donor\<lparr>bdb_age := JNum (Num 17)\<rparr>) ex_db)) \<and>
     is_BadRequest (fst (post_blood_donor lib0 2000 (ex_blood_donor\<lparr>bdb_age := JNum (Num 66)\<rparr>) ex_db))"
    by blast
  moreover from bad1 blood_donor_validation [of lib0 2000 "ex_blood_donor\<lparr>bdb_phone := Some ''12345''\<rparr>" ex_db]
  have "fst (post_blood_donor lib0 2000 (ex_blood_donor\<lparr>bdb_phone := Some ''12345''\<rparr>) ex_db) =
     BadRequest ''Invalid phone number format''"
    by (simp add: ex_simps)
  moreover from bad2 blood_donor_validation [of lib0 2000 "ex_blood_donor\<lparr>bdb_weight := JNum (Num 49)\<rparr>" ex_db]
  have "fst (post_blood_donor lib0 2000 (ex_blood_donor\<lparr>bdb_weight := JNum (Num 49)\<rparr>) ex_db) =
     BadRequest ''Weight must be at least 50 kg''"
    by (simp add: ex_simps)
  ultimately show ?thesis by blast
qed



subsection \<open>The donation log\<close>

lemma push_donation_found:
  assumes "findById i us = Some u" and "truthy_str x" and "castObjectId L (or_empty x) = Some i"
  shows "\<exists>us'. push_donation L x e us = Some us' \<and> length us' = length us \<and>
     (\<forall>j. findById j us' =
        (if j = i then Some (u\<lparr>donations := donations u @ [e]\<rparr>) else findById j us))"
  using assms
  by (frule_tac findById_Some)
     (simp add: push_donation_def save_doc_def findById_update findByIdAndUpdate_length)

lemma push_donation_absent:
  "castObjectId L (or_empty x) = Some i \<Longrightarrow> findById i us = None \<Longrightarrow>
   push_donation L x e us = Some us"
  by (simp add: push_donation_def)

lemma post_organ_donor_snd:
  "\<not> is_BadRequest (fst (post_organ_donor L now b s)) \<Longrightarrow>
   \<exists>d. snd (post_organ_donor L now b s) =
       (case push_donation L (odb_userId b)
               (OrganDonation (nextId s) (odb_name b) (odb_phone b) (odb_organType b)
                  (odb_conditionStatus b) now ''pending_verification'') (users s) of
          None \<Rightarrow> s\<lparr>organDonors := organDonors s @ [d], nextId := Suc (nextId s)\<rparr>
        | Some us \<Rightarrow> s\<lparr>organDonors := organDonors s @ [d], nextId := Suc (nextId s),
                         users := us\<rparr>) \<and>
     oid d = nextId s \<and> verificationStatus d = ''pending'' \<and> \<not> isVerified d"
  unfolding post_organ_donor_def
  by (auto simp: Let_def split: if_splits jsnum.splits sum.splits option.splits)

lemma post_money_donor_eq:
  "post_money_donor L now c s =
     (case push_donation L (mdb_userId c)
             (MoneyDonation (nextId s) (mdb_donorName c) (mdb_amount c) (mdb_paymentMethod c)
                now ''pending_verification'') (users s) of
        None \<Rightarrow>
          (InternalError,
           s\<lparr>moneyDonors := moneyDonors s @
                [\<lparr>oid = nextId s, isVerified = False, verificationStatus = ''pending'',
                  adminNotes = [], submittedAt = now, verifiedAt = None,
                  verificationFile = mdb_verificationFile c, md_donorName = mdb_donorName c,
                  md_amount = mdb_amount c, md_paymentMethod = mdb_paymentMethod c,
                  md_timestamp = now\<rparr>],
             nextId := Suc (nextId s)\<rparr>)
      | Some us \<Rightarrow>
          (Created \<lparr>sub_message = ''Money donation submitted for verification'',
             sub_recordId = nextId s, sub_status = ''pending_verification''\<rparr>,
           s\<lparr>moneyDonors := moneyDonors s @
                [\<lparr>oid = nextId s, isVerified = False, verificationStatus = ''pending'',
                  adminNotes = [], submittedAt = now, verifiedAt = None,
                  verificationFile = mdb_verificationFile c, md_donorName = mdb_donorName c,
                  md_amount = mdb_amount c, md_paymentMethod = mdb_paymentMethod c,
                  md_timestamp = now\<rparr>],
             nextId := Suc (nextId s), users := us\<rparr>))"
  by (simp add: post_money_donor_def Let_def split: option.splits)

text \<open>
  C7 as stated fails: a userId that is no ObjectId resolves to no user, yet the answer is
  not the 201. \<^verbatim>\<open>User.findById\<close> throws after the donor is saved, and the \<^verbatim>\<open>catch\<close> answers
  500: the donor record is there, the users are unchanged, and the error is surfaced.
\<close>

theorem donation_log_counterexample:
  "castObjectId lib0 ''abc'' = None \<and>
   fst (post_organ_donor lib0 3000 (ex_organ_donor\<lparr>odb_userId := Some ''abc''\<rparr>) ex_db) =
     InternalError \<and>
   length (organDonors (snd (post_organ_donor lib0 3000
     (ex_organ_donor\<lparr>odb_userId := Some ''abc''\<rparr>) ex_db))) = 1 \<and>
   organDonors ex_db = [] \<and>
   users (snd (post_organ_donor lib0 3000 (ex_organ_donor\<lparr>odb_userId := Some ''abc''\<rparr>) ex_db)) =
     users ex_db \<and>
   fst (post_money_donor lib0 3000 (ex_money_donor\<lparr>mdb_userId := Some ''abc''\<rparr>) ex_db) =
     InternalError \<and>
   length (moneyDonors (snd (post_money_donor lib0 3000
     (ex_money_donor\<lparr>mdb_userId := Some ''abc''\<rparr>) ex_db))) = 1 \<and>
   moneyDonors ex_db = []"
  by code_simp

text \<open>
  C7, amended. An accepted organ donor submission, and a money donor submission, whose
  userId is a well-formed id of an existing user appends exactly one entry, of status
  'pending_verification' and carrying the new donor's id, to that user's log, and changes
  no other user. When the userId is a well-formed id of no user, the answer is still the
  201 with status 'pending_verification', the donor record is added, and the user
  collection is unchanged. When the userId is supplied and is no well-formed ObjectId,
  the donor record is added all the same, the user collection is unchanged, and the
  answer is 500.
\<close>

theorem donation_log:
  "(is_Created (fst (post_organ_donor L now b s)) \<and> odb_userId b = Some uid \<and> uid \<noteq> [] \<and>
      castObjectId L uid = Some i \<and> findById i (users s) = Some u \<longrightarrow>
      (\<exists>e. donation_status e = ''pending_verification'' \<and> donation_donorId e = nextId s \<and>
           findById i (users (snd (post_organ_donor L now b s))) =
             Some (u\<lparr>donations := donations u @ [e]\<rparr>)) \<and>
      (\<forall>j. j \<noteq> i \<longrightarrow>
           findById j (users (snd (post_organ_donor L now b s))) = findById j (users s)) \<and>
      length (users (snd (post_organ_donor L now b s))) = length (users s)) \<and>
   (spec_organ_donor_ok L b \<and>
      spec_cooldown_ok L now (odb_hasDonatedBefore b) (odb_lastDonationDate b) \<and>
      odb_userId b = Some uid \<and> castObjectId L uid = Some i \<and> findById i (users s) = None \<longrightarrow>
      (\<exists>x. fst (post_organ_donor L now b s) = Created x \<and>
           sub_status x = ''pending_verification'') \<and>
      (\<exists>d. organDonors (snd (post_organ_donor L now b s)) = organDonors s @ [d]) \<and>
      users (snd (post_organ_donor L now b s)) = users s) \<and>
   (mdb_userId c = Some uid \<and> uid \<noteq> [] \<and> castObjectId L uid = Some i \<and>
      findById i (users s) = Some u \<longrightarrow>
      (\<exists>x. fst (post_money_donor L now c s) = Created x \<and>
           sub_status x = ''pending_verification'') \<and>
      (\<exists>e. donation_status e = ''pending_verification'' \<and> donation_donorId e = nextId s \<and>
           findById i (users (snd (post_money_donor L now c s))) =
             Some (u\<lparr>donations := donations u @ [e]\<rparr>)) \<and>
      (\<forall>j. j \<noteq> i \<longrightarrow>
           findById j (users (snd (post_money_donor L now c s))) = findById j (users s)) \<and>
      length (users (snd (post_money_donor L now c s))) = length (users s)) \<and>
   (mdb_userId c = Some uid \<and> castObjectId L uid = Some i \<and> findById i (users s) = None \<longrightarrow>
      (\<exists>x. fst (post_money_donor L now c s) = Created x \<and>
           sub_status x = ''pending_verification'') \<and>
      (\<exists>d. moneyDonors (snd (post_money_donor L now c s)) = moneyDonors s @ [d]) \<and>
      users (snd (post_money_donor L now c s)) = users s) \<and>
   (spec_organ_donor_ok L b \<and>
      spec_cooldown_ok L now (odb_hasDonatedBefore b) (odb_lastDonationDate b) \<and>
      odb_userId b = Some uid \<and> uid \<noteq> [] \<and> castObjectId L uid = None \<longrightarrow>
      fst (post_organ_donor L now b s) = InternalError \<and>
      (\<exists>d. organDonors (snd (post_organ_donor L now b s)) = organDonors s @ [d]) \<and>
      users (snd (post_organ_donor L now b s)) = users s) \<and>
   (mdb_userId c = Some uid \<and> uid \<noteq> [] \<and> castObjectId L uid = None \<longrightarrow>
      fst (post_money_donor L now c s) = InternalError \<and>
      (\<exists>d. moneyDonors (snd (post_money_donor L now c s)) = moneyDonors s @ [d]) \<and>
      users (snd (post_money_donor L now c s)) = users s)"
proof (intro conjI impI)
  assume a: "is_Created (fst (post_organ_donor L now b s)) \<and> odb_userId b = Some uid \<and> uid \<noteq> [] \<and>
      castObjectId L uid = Some i \<and> findById i (users s) = Some u"
  let ?e = "OrganDonation (nextId s) (odb_name b) (odb_phone b) (odb_organType b)
                (odb_conditionStatus b) now ''pending_verification''"
  from a have u: "findById i (users s) = Some u" by simp
  from a obtain us' where p: "push_donation L (odb_userId b) ?e (users s) = Some us'"
      "length us' = length (users s)"
      "\<forall>j. findById j us' =
        (if j = i then Some (u\<lparr>donations := donations u @ [?e]\<rparr>) else findById j (users s))"
    using push_donation_found [OF u, of "odb_userId b" L ?e] by auto
  from a have "\<not> is_BadRequest (fst (post_organ_donor L now b s))"
    by (cases "fst (post_organ_donor L now b s)") auto
  from post_organ_donor_snd [OF this] p(1)
  have s': "users (snd (post_organ_donor L now b s)) = us'" by auto
  show "\<exists>e. donation_status e = ''pending_verification'' \<and> donation_donorId e = nextId s \<and>
           findById i (users (snd (post_organ_donor L now b s))) =
             Some (u\<lparr>donations := donations u @ [e]\<rparr>)"
    by (rule exI [of _ ?e]) (simp add: s' p(3))
  show "\<forall>j. j \<noteq> i \<longrightarrow>
           findById j (users (snd (post_organ_donor L now b s))) = findById j (users s)"
    by (simp add: s' p(3))
  show "length (users (snd (post_organ_donor L now b s))) = length (users s)"
    by (simp add: s' p(2))
next
  assume a: "spec_organ_donor_ok L b \<and>
      spec_cooldown_ok L now (odb_hasDonatedBefore b) (odb_lastDonationDate b) \<and>
      odb_userId b = Some uid \<and> castObjectId L uid = Some i \<and> findById i (users s) = None"
  then have nt: "\<not> cast_throws L (odb_userId b)"
    by (simp add: cast_throws_def)
  with a have c: "fst (post_organ_donor L now b s) =
     Created \<lparr>sub_message = ''Organ donor registration submitted for verification'',
       sub_recordId = nextId s, sub_status = ''pending_verification''\<rparr>"
    by (simp add: organ_ok_created)
  then show "\<exists>x. fst (post_organ_donor L now b s) = Created x \<and>
           sub_status x = ''pending_verification''"
    by simp
  from a show "\<exists>d. organDonors (snd (post_organ_donor L now b s)) = organDonors s @ [d]"
    by (simp add: organ_ok_stored)
  from c have "\<not> is_BadRequest (fst (post_organ_donor L now b s))" by simp
  from post_organ_donor_snd [OF this] a
  show "users (snd (post_organ_donor L now b s)) = users s"
    by (auto simp: push_donation_absent [of L _ i])
next
  assume a: "mdb_userId c = Some uid \<and> uid \<noteq> [] \<and> castObjectId L uid = Some i \<and>
      findById i (users s) = Some u"
  let ?e = "MoneyDonation (nextId s) (mdb_donorName c) (mdb_amount c)
            (mdb_paymentMethod c) now ''pending_verification''"
  from a have u: "findById i (users s) = Some u" by simp
  from a obtain us' where p: "push_donation L (mdb_userId c) ?e (users s) = Some us'"
      "length us' = length (users s)"
      "\<forall>j. findById j us' =
        (if j = i then Some (u\<lparr>donations := donations u @ [?e]\<rparr>) else findById j (users s))"
    using push_donation_found [OF u, of "mdb_userId c" L ?e] by auto
  show "\<exists>x. fst (post_money_donor L now c s) = Created x \<and> sub_status x = ''pending_verification''"
    by (simp add: post_money_donor_eq p(1))
  show "\<exists>e. donation_status e = ''pending_verification'' \<and> donation_donorId e = nextId s \<and>
           findById i (users (snd (post_money_donor L now c s))) =
             Some (u\<lparr>donations := donations u @ [e]\<rparr>)"
    by (rule exI [of _ ?e]) (simp add: post_money_donor_eq p(1) p(3))
  show "\<forall>j. j \<noteq> i \<longrightarrow>
           findById j (users (snd (post_money_donor L now c s))) = findById j (users s)"
    by (simp add: post_money_donor_eq p(1) p(3))
  show "length (users (snd (post_money_donor L now c s))) = length (users s)"
    by (simp add: post_money_donor_eq p(1) p(2))
next
  assume a: "mdb_userId c = Some uid \<and> castObjectId L uid = Some i \<and> findById i (users s) = None"
  then have p: "push_donation L (mdb_userId c)
       (MoneyDonation (nextId s) (mdb_donorName c) (mdb_amount c) (mdb_paymentMethod c) now
          ''pending_verification'') (users s) = Some (users s)"
    by (simp add: push_donation_absent [of L _ i])
  show "\<exists>x. fst (post_money_donor L now c s) = Created x \<and> sub_status x = ''pending_verification''"
    by (simp add: post_money_donor_eq p)
  show "\<exists>d. moneyDonors (snd (post_money_donor L now c s)) = moneyDonors s @ [d]"
    by (simp add: post_money_donor_eq p)
  show "users (snd (post_money_donor L now c s)) = users s"
    by (simp add: post_money_donor_eq p)
next
  assume a: "spec_organ_donor_ok L b \<and>
      spec_cooldown_ok L now (odb_hasDonatedBefore b) (odb_lastDonationDate b) \<and>
      odb_userId b = Some uid \<and> uid \<noteq> [] \<and> castObjectId L uid = None"
  then have t: "cast_throws L (odb_userId b)"
    by (simp add: cast_throws_def)
  with a show c: "fst (post_organ_donor L now b s) = InternalError"
    by (simp add: organ_ok_created)
  from a show "\<exists>d. organDonors (snd (post_organ_donor L now b s)) = organDonors s @ [d]"
    by (simp add: organ_ok_stored)
  from c have "\<not> is_BadRequest (fst (post_organ_donor L now b s))" by simp
  moreover from t have "push_donation L (odb_userId b)
       (OrganDonation (nextId s) (odb_name b) (odb_phone b) (odb_organType b)
          (odb_conditionStatus b) now ''pending_verification'') (users s) = None"
    by (simp add: push_donation_None)
  ultimately show "users (snd (post_organ_donor L now b s)) = users s"
    using post_organ_donor_snd [of L now b s] by auto
next
  assume a: "mdb_userId c = Some uid \<and> uid \<noteq> [] \<and> castObjectId L uid = None"
  then have "cast_throws L (mdb_userId c)"
    by (simp add: cast_throws_def)
  then have p: "push_donation L (mdb_userId c)
       (MoneyDonation (nextId s) (mdb_donorName c) (mdb_amount c) (mdb_paymentMethod c) now
          ''pending_verification'') (users s) = None"
    by (simp add: push_donation_None)
  show "fst (post_money_donor L now c s) = InternalError"
    by (simp add: post_money_donor_eq p)
  show "\<exists>d. moneyDonors (snd (post_money_donor L now c s)) = moneyDonors s @ [d]"
    by (simp add: post_money_donor_eq p)
  show "users (snd (post_money_donor L now c s)) = users s"
    by (simp add: post_money_donor_eq p)
qed

text \<open>
  On the store with user 0: submissions naming user 0 leave that user with a one-entry
  log; submissions naming the well-formed id 7 of no user are accepted and leave the users
  as they were.
\<close>

theorem donation_log_witness:
  "(\<exists>e. map_option donations
          (findById 0 (users (snd (post_organ_donor lib0 3000 ex_organ_donor ex_db)))) = Some [e] \<and>
        donation_status e = ''pending_verification'') \<and>
   (\<exists>e. map_option donations
          (findById 0 (users (snd (post_money_donor lib0 3000 ex_money_donor ex_db)))) = Some [e] \<and>
        donation_status e = ''pending_verification'') \<and>
   castObjectId lib0 ''000000000000000000000007'' = Some 7 \<and>
   is_Created (fst (post_organ_donor lib0 3000
     (ex_organ_donor\<lparr>odb_userId := Some ''000000000000000000000007''\<rparr>) ex_db)) \<and>
   users (snd (post_organ_donor lib0 3000
     (ex_organ_donor\<lparr>odb_userId := Some ''000000000000000000000007''\<rparr>) ex_db)) = users ex_db \<and>
   is_Created (fst (post_money_donor lib0 3000
     (ex_money_donor\<lparr>mdb_userId := Some ''000000000000000000000007''\<rparr>) ex_db)) \<and>
   users (snd (post_money_donor lib0 3000
     (ex_money_donor\<lparr>mdb_userId := Some ''000000000000000000000007''\<rparr>) ex_db)) = users ex_db"
proof -
  let ?u = "\<lparr>oid = 0, u_name = ''Asha'', u_phone = ''9876543210'', u_password = ''#pw'',
     u_profilePhoto = ''a.png'', u_createdAt = 1000, donations = []\<rparr>"
  have found: "findById 0 (users ex_db) = Some ?u"
    by (simp add: ex_db_users findById_def)
  have absent: "findById 7 (users ex_db) = None"
    by (simp add: ex_db_users findById_def)
  have c: "castObjectId lib0 ''000000000000000000000000'' = Some 0"
    "castObjectId lib0 ''000000000000000000000007'' = Some 7"
    by (simp_all add: lib0_cast ex_hex)
  have ok: "spec_organ_donor_ok lib0 (ex_organ_donor\<lparr>odb_userId := x\<rparr>) \<and>
      spec_cooldown_ok lib0 3000 (odb_hasDonatedBefore (ex_organ_donor\<lparr>odb_userId := x\<rparr>))
        (odb_lastDonationDate (ex_organ_donor\<lparr>odb_userId := x\<rparr>))" for x
    by (simp add: ex_simps)
  have created: "is_Created (fst (post_organ_donor lib0 3000 ex_organ_donor ex_db))"
    using ok [of "Some ''000000000000000000000000''"] c
    by (simp add: organ_ok_created ex_organ_donor_def cast_throws_def)
  have ids: "odb_userId ex_organ_donor = Some ''000000000000000000000000''"
    "mdb_userId ex_money_donor = Some ''000000000000000000000000''"
    by (simp_all add: ex_organ_donor_def ex_money_donor_def)
  from created ids found c
    donation_log [of lib0 3000 ex_organ_donor ex_db "''000000000000000000000000''" 0 ?u
      ex_money_donor]
  have 1: "(\<exists>e. map_option donations
          (findById 0 (users (snd (post_organ_donor lib0 3000 ex_organ_donor ex_db)))) = Some [e] \<and>
        donation_status e = ''pending_verification'') \<and>
   (\<exists>e. map_option donations
          (findById 0 (users (snd (post_money_donor lib0 3000 ex_money_donor ex_db)))) = Some [e] \<and>
        donation_status e = ''pending_verification'')"
    by auto
  from ok [of "Some ''000000000000000000000007''"] absent c
    donation_log [of lib0 3000 "ex_organ_donor\<lparr>odb_userId := Some ''000000000000000000000007''\<rparr>"
      ex_db "''000000000000000000000007''" 7 ?u
      "ex_money_donor\<lparr>mdb_userId := Some ''000000000000000000000007''\<rparr>"]
  have 2: "is_Created (fst (post_organ_donor lib0 3000
     (ex_organ_donor\<lparr>odb_userId := Some ''000000000000000000000007''\<rparr>) ex_db)) \<and>
   users (snd (post_organ_donor lib0 3000
     (ex_organ_donor\<lparr>odb_userId := Some ''000000000000000000000007''\<rparr>) ex_db)) = users ex_db \<and>
   is_Created (fst (post_money_donor lib0 3000
     (ex_money_donor\<lparr>mdb_userId := Some ''000000000000000000000007''\<rparr>) ex_db)) \<and>
   users (snd (post_money_donor lib0 3000
     (ex_money_donor\<lparr>mdb_userId := Some ''000000000000000000000007''\<rparr>) ex_db)) = users ex_db"
    by auto
  from 1 2 c show ?thesis by blast
qed

subsection \<open>Listing\<close>

text \<open>
  C8. \<^verbatim>\<open>listBloodDonors\<close> answers with exactly the blood donor records whose
  verificationStatus is 'approved', each as often as the collection holds it;
  \<^verbatim>\<open>listOrganDonors\<close> answers with the whole organ donor collection, whatever the
  verification state of its records.
\<close>

theorem list_donors:
  "(\<exists>ds. listBloodDonors s = Ok ds \<and>
      set ds = {d \<in> set (bloodDonors s). verificationStatus d = ''approved''} \<and>
      (\<forall>d. count_list ds d = (if verificationStatus d = ''approved''
                               then count_list (bloodDonors s) d else 0))) \<and>
   listOrganDonors s = Ok (organDonors s)"
  by (simp add: listBloodDonors_def listOrganDonors_def count_list_filter)

text \<open>
  After one accepted blood donor and one accepted organ donor submission, both pending,
  the organ donor is listed and the blood donor is not.
\<close>

theorem list_donors_witness:
  "listBloodDonors (run lib0 [PostBloodDonor 2000 ex_blood_donor, PostOrganDonor 3000 ex_organ_donor] ex_db) = Ok [] \<and>
   (\<exists>d. listOrganDonors (run lib0 [PostBloodDonor 2000 ex_blood_donor, PostOrganDonor 3000 ex_organ_donor] ex_db) = Ok [d]
      \<and> verificationStatus d = ''pending'') \<and>
   length (bloodDonors (run lib0 [PostBloodDonor 2000 ex_blood_donor, PostOrganDonor 3000 ex_organ_donor] ex_db)) = 1"
proof -
  let ?s = "run lib0 [PostBloodDonor 2000 ex_blood_donor, PostOrganDonor 3000 ex_organ_donor] ex_db"
  have a: "map verificationStatus (bloodDonors ?s) = [''pending'']"
    by code_simp
  have b: "map verificationStatus (organDonors ?s) = [''pending'']"
    by code_simp
  from list_donors [of ?s] obtain ds where
    ds: "listBloodDonors ?s = Ok ds"
      "set ds = {d \<in> set (bloodDonors ?s). verificationStatus d = ''approved''}"
    and od: "listOrganDonors ?s = Ok (organDonors ?s)"
    by blast
  from a have "\<forall>d \<in> set (bloodDonors ?s). verificationStatus d = ''pending''"
    by (cases "bloodDonors ?s") auto
  with ds have "set ds = {}" by auto
  then have "ds = []" by simp
  moreover from b obtain d where "organDonors ?s = [d]" "verificationStatus d = ''pending''"
    by (cases "organDonors ?s") auto
  moreover from a have "length (bloodDonors ?s) = 1"
    by (cases "bloodDonors ?s") auto
  ultimately show ?thesis using ds od by simp
qed

subsection \<open>Login\<close>

text \<open>
  C9. \<^verbatim>\<open>login\<close> answers Unauthorized when no user has the phone and when the hash
  comparison fails, with one and the same message: any two failed logins get equal
  responses. When the comparison succeeds it answers with the user found, as a record
  that has no password field.
\<close>

theorem login_outcomes:
  "(phone \<notin> u_phone ` set (users s) \<longrightarrow>
      login L phone password s = Unauthorized ''Invalid phone number or password'') \<and>
   (\<forall>u. find (\<lambda>u. u_phone u = phone) (users s) = Some u \<longrightarrow>
      login L phone password s =
        (if bcrypt_compare L password (u_password u)
         then Ok (''Login successful'',
                  \<lparr>ur_id = oid u, ur_name = u_name u, ur_phone = u_phone u,
                   ur_profilePhoto = u_profilePhoto u, ur_createdAt = u_createdAt u,
                   ur_donations = donations u\<rparr>)
         else Unauthorized ''Invalid phone number or password'')) \<and>
   ((\<forall>x. login L phone password s \<noteq> Ok x) \<and> (\<forall>x. login L' phone' password' s' \<noteq> Ok x) \<longrightarrow>
      login L phone password s = login L' phone' password' s')"
  by (auto simp: login_def Let_def userResponse_of_def find_None_image [symmetric]
           split: option.splits)

text \<open>The registered user 0: a wrong password, an unknown phone, the right password.\<close>

theorem login_outcomes_witness:
  "login lib0 ''9876543210'' ''bad'' ex_db = Unauthorized ''Invalid phone number or password'' \<and>
   login lib0 ''0000000000'' ''pw'' ex_db = Unauthorized ''Invalid phone number or password'' \<and>
   login lib0 ''9876543210'' ''bad'' ex_db = login lib0 ''0000000000'' ''pw'' ex_db \<and>
   login lib0 ''9876543210'' ''pw'' ex_db =
     Ok (''Login successful'', \<lparr>ur_id = 0, ur_name = ''Asha'', ur_phone = ''9876543210'',
          ur_profilePhoto = ''a.png'', ur_createdAt = 1000, ur_donations = []\<rparr>)"
proof -
  have f: "find (\<lambda>u. u_phone u = ''9876543210'') (users ex_db) = Some (hd (users ex_db))"
    by (simp add: ex_db_users)
  have n: "''0000000000'' \<notin> u_phone ` set (users ex_db)"
    by (simp add: ex_db_users)
  from n login_outcomes [where phone = "''0000000000''" and s = ex_db and L = lib0 and password = "''pw''"]
  have 1: "login lib0 ''0000000000'' ''pw'' ex_db = Unauthorized ''Invalid phone number or password''"
    by blast
  from f login_outcomes [where phone = "''9876543210''" and s = ex_db and L = lib0 and password = "''bad''"]
  have 2: "login lib0 ''9876543210'' ''bad'' ex_db = Unauthorized ''Invalid phone number or password''"
    by (simp add: ex_db_users lib0_def)
  from f login_outcomes [where phone = "''9876543210''" and s = ex_db and L = lib0 and password = "''pw''"]
  have 3: "login lib0 ''9876543210'' ''pw'' ex_db =
     Ok (''Login successful'', \<lparr>ur_id = 0, ur_name = ''Asha'', ur_phone = ''9876543210'',
          ur_profilePhoto = ''a.png'', ur_createdAt = 1000, ur_donations = []\<rparr>)"
    by (simp add: ex_db_users lib0_def)
  from 1 2 3 show ?thesis by simp
qed

subsection \<open>The blood donor submission writes to one collection\<close>

lemma post_blood_donor_cases:
  "post_blood_donor L now b s = (r, s') \<Longrightarrow>
     (is_BadRequest r \<and> s' = s) \<or>
     (\<exists>d. is_Created r \<and> s' = s\<lparr>bloodDonors := bloodDonors s @ [d], nextId := Suc (nextId s)\<rparr>
        \<and> oid d = nextId s \<and> verificationStatus d = ''pending'' \<and> \<not> isVerified d)"
  unfolding post_blood_donor_def
  by (auto simp: Let_def split: if_splits jsnum.splits sum.splits)

text \<open>
  C10. A blood donor submission, whatever its body (a \<^verbatim>\<open>userId\<close> included), leaves the
  user collection and the five other collections as they were; the blood donor
  collection grows by one record when the answer is 201 and not at all otherwise.
\<close>

theorem blood_donor_leaves_users:
  "users (snd (post_blood_donor L now b s)) = users s \<and>
   bloodReceivers (snd (post_blood_donor L now b s)) = bloodReceivers s \<and>
   organDonors (snd (post_blood_donor L now b s)) = organDonors s \<and>
   organReceivers (snd (post_blood_donor L now b s)) = organReceivers s \<and>
   moneyDonors (snd (post_blood_donor L now b s)) = moneyDonors s \<and>
   moneyReceivers (snd (post_blood_donor L now b s)) = moneyReceivers s \<and>
   length (bloodDonors (snd (post_blood_donor L now b s))) =
     length (bloodDonors s) + (if is_Created (fst (post_blood_donor L now b s)) then 1 else 0)"
proof -
  obtain r s' where rs: "post_blood_donor L now b s = (r, s')"
    by (cases "post_blood_donor L now b s")
  from post_blood_donor_cases [OF rs] show ?thesis
    unfolding rs by (cases r) auto
qed

text \<open>An accepted submission that names the registered user 0 leaves that user's log empty.\<close>

theorem blood_donor_leaves_users_witness:
  "bdb_userId ex_blood_donor = Some ''000000000000000000000000'' \<and>
   castObjectId lib0 ''000000000000000000000000'' = Some 0 \<and>
   is_Created (fst (post_blood_donor lib0 2000 ex_blood_donor ex_db)) \<and>
   map donations (users ex_db) = [[]] \<and>
   map donations (users (snd (post_blood_donor lib0 2000 ex_blood_donor ex_db))) = [[]]"
proof -
  have "users (snd (post_blood_donor lib0 2000 ex_blood_donor ex_db)) = users ex_db"
    using blood_donor_leaves_users [of lib0 2000 ex_blood_donor ex_db] by simp
  moreover have "map donations (users ex_db) = [[]]"
    by code_simp
  moreover have "is_Created (fst (post_blood_donor lib0 2000 ex_blood_donor ex_db))"
    by code_simp
  moreover have "bdb_userId ex_blood_donor = Some ''000000000000000000000000''"
    by (simp add: ex_blood_donor_def)
  ultimately show ?thesis by (simp add: lib0_cast ex_hex)
qed

end
